theory Spec2Isabelle
  imports Main "HOL-Library.Word"
begin

unbundle bit_operations_syntax

section \<open>spectrum\_cs: PCMCIA attachment and reset of Symbol Spectrum24 cards\<close>

text \<open>
  A shallow embedding of \<^verbatim>\<open>drivers/net/wireless/orinoco/spectrum_cs.c\<close>.
  The driver is glue between Card Services (the PCMCIA core), the kernel and the
  orinoco core. None of these is part of the file, so

  \<^item> the constants of the headers the file includes are the fields of a record \<open>hdr\<close>
    that every function takes as its first argument;
  \<^item> the functions the driver calls are the fields of a record \<open>services\<close>, acting on a
    world \<open>'w\<close> (socket, card, kernel) and on the structures they are handed by pointer;
  \<^item> every call the driver makes is appended to a trace \<open>calls\<close>, so that the order,
    the arguments and the results of the calls can be stated.

  \<^verbatim>\<open>u_int\<close> is a 32-bit word, \<^verbatim>\<open>u_char\<close> an 8-bit word. The counter
  \<^verbatim>\<open>hw_unavailable\<close>, a C \<^verbatim>\<open>int\<close> that the driver increments, is a 32-bit word
  read as two's complement by \<open>sint\<close>: its increment wraps from \<^verbatim>\<open>INT_MAX\<close> to
  \<^verbatim>\<open>INT_MIN\<close>. Return codes and the module parameter are C \<^verbatim>\<open>int\<close>s that the driver
  only compares with 0, passes on or negates from a header constant; they are
  modelled by \<open>int\<close>. A fixed-size C array is a total function of its index.
  A pointer is an address, 0 for \<^verbatim>\<open>NULL\<close>.
\<close>

type_synonym u_int = "32 word"
type_synonym u_char = "8 word"
type_synonym c_int = "32 word"
type_synonym addr = nat

subsection \<open>Constants of the included headers\<close>

record hdr =
  ENODEV :: int
  CS_READ :: u_int
  CS_WRITE :: u_int
  CISREG_COR :: int
  CISREG_CCSR :: int
  COR_SOFT_RESET :: u_int
  CISTPL_POWER_VNOM :: nat
  CISTPL_IO_LINES_MASK :: u_int
  CISTPL_IO_8BIT :: u_int
  CISTPL_IO_16BIT :: u_int
  CONF_ENABLE_IRQ :: u_int
  IO_DATA_PATH_WIDTH_8 :: u_int
  IO_DATA_PATH_WIDTH_16 :: u_int
  IO_DATA_PATH_WIDTH_AUTO :: u_int
  AccessConfigurationRegister :: int
  RequestIO :: int
  RequestIRQ :: int
  RequestConfiguration :: int
  HERMES_16BIT_REGSPACING :: int

text \<open>Constants for the CISREG\_CCSR register, defined in the file itself.\<close>

definition HCR_RUN :: u_int where
  "HCR_RUN = 0x07"

definition HCR_IDLE :: u_int where
  "HCR_IDLE = 0x0E"

definition HCR_MEM16 :: u_int where
  "HCR_MEM16 = 0x10"

subsection \<open>Data structures\<close>

record conf_reg_t =
  Function :: u_char
  Action :: u_int
  Offset :: int
  Value :: u_int

record cistpl_power_t =
  present :: u_char
  param :: "nat \<Rightarrow> u_int"

record cistpl_io_win =
  base :: u_int
  len :: u_int

record cistpl_io_t =
  flags :: u_char
  nwin :: u_char
  win :: "nat \<Rightarrow> cistpl_io_win"

text \<open>The fields of a configuration table entry that the driver reads; the
  entry's \<^verbatim>\<open>io\<close> is \<open>cfio\<close> here, \<open>io\<close> being the device's request below.\<close>

record cistpl_cftable_entry_t =
  index :: u_char
  vcc :: cistpl_power_t
  vpp1 :: cistpl_power_t
  cfio :: cistpl_io_t

record config_req_t =
  Attributes :: u_int
  Vpp :: u_int
  IntType :: u_int

record io_req_t =
  BasePort1 :: u_int
  NumPorts1 :: u_int
  Attributes1 :: u_int
  BasePort2 :: u_int
  NumPorts2 :: u_int
  Attributes2 :: u_int
  IOAddrLines :: u_int

record irq_req_t =
  AssignedIRQ :: u_int

text \<open>\<open>dev_node\<close> is the pointer \<^verbatim>\<open>link->dev_node\<close>: \<open>True\<close> when it points to the
  card's node, \<open>False\<close> when it is \<^verbatim>\<open>NULL\<close>.\<close>

record pcmcia_device =
  conf :: config_req_t
  io :: io_req_t
  irq :: irq_req_t
  dev_node :: bool

record hermes_t =
  iobase :: addr

record dev_node_t =
  dev_name :: string
  major :: int
  minor :: int

text \<open>\<^verbatim>\<open>struct orinoco_private\<close> with its \<^verbatim>\<open>card\<close> (\<^verbatim>\<open>struct orinoco_pccard\<close>, whose
  \<^verbatim>\<open>p_dev\<close> is the link of the system state) and the name of its net device.\<close>

record orinoco_private =
  hw :: hermes_t
  hw_unavailable :: c_int
  node :: dev_node_t
  ndev_name :: string

subsection \<open>The trace of calls and the system state\<close>

datatype call =
    Access_configuration_register conf_reg_t int conf_reg_t
  | Udelay nat
  | Cs_error int int
  | Debug_vcc_mismatch u_int u_int
  | Request_io io_req_t int
  | Disable_device
  | Request_irq int
  | Ioport_map u_int u_int addr
  | Hermes_struct_init addr int
  | Request_configuration config_req_t int
  | Orinoco_init int
  | Orinoco_if_add u_int u_int int
  | Ioport_unmap addr
  | Printk string

record 'w sys =
  link :: pcmcia_device
  priv :: orinoco_private
  world :: 'w
  calls :: "call list"

text \<open>The functions of Card Services, of the kernel and of the orinoco core that the
  driver calls. \<open>cftable\<close> and \<open>socket_Vcc\<close> are what the socket hands to the scan of the
  configuration table: the entries in order, each with the default entry in force,
  and the voltage of the socket.\<close>

record 'w services =
  pcmcia_dev_present :: "'w \<Rightarrow> pcmcia_device \<Rightarrow> int"
  pcmcia_access_configuration_register ::
    "'w \<Rightarrow> pcmcia_device \<Rightarrow> conf_reg_t \<Rightarrow> int \<times> conf_reg_t \<times> 'w"
  pcmcia_request_io :: "'w \<Rightarrow> pcmcia_device \<Rightarrow> int \<times> pcmcia_device \<times> 'w"
  pcmcia_disable_device :: "'w \<Rightarrow> pcmcia_device \<Rightarrow> pcmcia_device \<times> 'w"
  pcmcia_request_irq :: "'w \<Rightarrow> pcmcia_device \<Rightarrow> int \<times> pcmcia_device \<times> 'w"
  pcmcia_request_configuration :: "'w \<Rightarrow> pcmcia_device \<Rightarrow> int \<times> pcmcia_device \<times> 'w"
  ioport_map :: "'w \<Rightarrow> u_int \<Rightarrow> u_int \<Rightarrow> addr \<times> 'w"
  ioport_unmap :: "'w \<Rightarrow> addr \<Rightarrow> 'w"
  hermes_struct_init :: "hermes_t \<Rightarrow> addr \<Rightarrow> int \<Rightarrow> hermes_t"
  orinoco_init :: "'w \<Rightarrow> orinoco_private \<Rightarrow> int \<times> orinoco_private \<times> 'w"
  orinoco_if_add :: "'w \<Rightarrow> orinoco_private \<Rightarrow> u_int \<Rightarrow> u_int \<Rightarrow> int \<times> orinoco_private \<times> 'w"
  cftable :: "'w \<Rightarrow> (cistpl_cftable_entry_t \<times> cistpl_cftable_entry_t) list"
  socket_Vcc :: "'w \<Rightarrow> u_int"
  no_more_items :: int

definition log :: "call \<Rightarrow> 'w sys \<Rightarrow> 'w sys" where
  "log c s = s\<lparr>calls := calls s @ [c]\<rparr>"

text \<open>\<^verbatim>\<open>pcmcia_access_configuration_register(link, &reg)\<close>: the call, recorded with
  the request as passed, the code returned and the structure as the call left it.\<close>

definition access_configuration_register ::
  "'w services \<Rightarrow> conf_reg_t \<Rightarrow> 'w sys \<Rightarrow> int \<times> conf_reg_t \<times> 'w sys" where
  "access_configuration_register K reg s =
     (case pcmcia_access_configuration_register K (world s) (link s) reg of
        (ret, reg', w) \<Rightarrow>
          (ret, reg', log (Access_configuration_register reg ret reg') (s\<lparr>world := w\<rparr>)))"

definition udelay :: "nat \<Rightarrow> 'w sys \<Rightarrow> 'w sys" where
  "udelay usecs s = log (Udelay usecs) s"

definition cs_error :: "int \<Rightarrow> int \<Rightarrow> 'w sys \<Rightarrow> 'w sys" where
  "cs_error func ret s = log (Cs_error func ret) s"

subsection \<open>Reset of the card\<close>

text \<open>The label \<^verbatim>\<open>cs_failed\<close> of \<^verbatim>\<open>spectrum_reset\<close>.\<close>

definition reset_cs_failed :: "hdr \<Rightarrow> int \<Rightarrow> int \<Rightarrow> 'w sys \<Rightarrow> int \<times> 'w sys" where
  "reset_cs_failed h last_fn last_ret s = (- ENODEV h, cs_error last_fn last_ret s)"

text \<open>\<^verbatim>\<open>spectrum_reset(link, idle)\<close>. \<open>reg0\<close> is the content of the local \<^verbatim>\<open>reg\<close> at
  entry, which the function does not initialise. Each \<^verbatim>\<open>CS_CHECK\<close> sets
  \<^verbatim>\<open>last_fn\<close> and \<^verbatim>\<open>last_ret\<close> and jumps to \<^verbatim>\<open>cs_failed\<close> on a non-zero code.\<close>

definition spectrum_reset ::
  "hdr \<Rightarrow> 'w services \<Rightarrow> conf_reg_t \<Rightarrow> 'w sys \<Rightarrow> int \<Rightarrow> int \<times> 'w sys" where
  "spectrum_reset h K reg0 s idle =
     (if pcmcia_dev_present K (world s) (link s) = 0 then (- ENODEV h, s)
      else
        let reg = reg0\<lparr>Function := 0, Action := CS_READ h, Offset := CISREG_COR h\<rparr>;
            last_fn = AccessConfigurationRegister h;
            (last_ret, reg, s) = access_configuration_register K reg s
        in if last_ret \<noteq> 0 then reset_cs_failed h last_fn last_ret s
        else
        let save_cor = Value reg;
            reg = reg\<lparr>Action := CS_WRITE h, Offset := CISREG_COR h,
                      Value := save_cor OR COR_SOFT_RESET h\<rparr>;
            (last_ret, reg, s) = access_configuration_register K reg s
        in if last_ret \<noteq> 0 then reset_cs_failed h last_fn last_ret s
        else
        let s = udelay 1000 s;
            reg = reg\<lparr>Action := CS_READ h, Offset := CISREG_CCSR h\<rparr>;
            (last_ret, reg, s) = access_configuration_register K reg s
        in if last_ret \<noteq> 0 then reset_cs_failed h last_fn last_ret s
        else
        let reg = reg\<lparr>Action := CS_WRITE h, Offset := CISREG_CCSR h,
                      Value := (if idle \<noteq> 0 then HCR_IDLE else HCR_RUN)
                               OR (Value reg AND HCR_MEM16)\<rparr>;
            (last_ret, reg, s) = access_configuration_register K reg s
        in if last_ret \<noteq> 0 then reset_cs_failed h last_fn last_ret s
        else
        let s = udelay 1000 s;
            reg = reg\<lparr>Action := CS_WRITE h, Offset := CISREG_COR h,
                      Value := save_cor AND NOT (COR_SOFT_RESET h)\<rparr>;
            (last_ret, reg, s) = access_configuration_register K reg s
        in if last_ret \<noteq> 0 then reset_cs_failed h last_fn last_ret s
        else
        let s = udelay 1000 s
        in (0, s))"

text \<open>\<^verbatim>\<open>spectrum_cs_hard_reset(priv)\<close>: the reset with \<^verbatim>\<open>idle\<close> 0; the value of
  \<^verbatim>\<open>spectrum_reset\<close> is dropped and 0 is returned.\<close>

definition spectrum_cs_hard_reset ::
  "hdr \<Rightarrow> 'w services \<Rightarrow> conf_reg_t \<Rightarrow> 'w sys \<Rightarrow> int \<times> 'w sys" where
  "spectrum_cs_hard_reset h K reg0 s =
     (case spectrum_reset h K reg0 s 0 of (ret, s) \<Rightarrow> (0, s))"

definition spectrum_cs_stop_firmware ::
  "hdr \<Rightarrow> 'w services \<Rightarrow> conf_reg_t \<Rightarrow> 'w sys \<Rightarrow> int \<Rightarrow> int \<times> 'w sys" where
  "spectrum_cs_stop_firmware h K reg0 s idle = spectrum_reset h K reg0 s idle"

subsection \<open>Calls of Card Services on the link\<close>

definition upd_conf :: "(config_req_t \<Rightarrow> config_req_t) \<Rightarrow> 'w sys \<Rightarrow> 'w sys" where
  "upd_conf f s = s\<lparr>link := (link s)\<lparr>conf := f (conf (link s))\<rparr>\<rparr>"

definition upd_io :: "(io_req_t \<Rightarrow> io_req_t) \<Rightarrow> 'w sys \<Rightarrow> 'w sys" where
  "upd_io f s = s\<lparr>link := (link s)\<lparr>io := f (io (link s))\<rparr>\<rparr>"

definition upd_priv :: "(orinoco_private \<Rightarrow> orinoco_private) \<Rightarrow> 'w sys \<Rightarrow> 'w sys" where
  "upd_priv f s = s\<lparr>priv := f (priv s)\<rparr>"

text \<open>\<^verbatim>\<open>pcmcia_request_io(p_dev, &p_dev->io)\<close>, recorded with the request as passed.\<close>

definition request_io :: "'w services \<Rightarrow> 'w sys \<Rightarrow> int \<times> 'w sys" where
  "request_io K s =
     (case pcmcia_request_io K (world s) (link s) of
        (ret, l, w) \<Rightarrow> (ret, log (Request_io (io (link s)) ret) (s\<lparr>link := l, world := w\<rparr>)))"

definition disable_device :: "'w services \<Rightarrow> 'w sys \<Rightarrow> 'w sys" where
  "disable_device K s =
     (case pcmcia_disable_device K (world s) (link s) of
        (l, w) \<Rightarrow> log Disable_device (s\<lparr>link := l, world := w\<rparr>))"

definition request_irq :: "'w services \<Rightarrow> 'w sys \<Rightarrow> int \<times> 'w sys" where
  "request_irq K s =
     (case pcmcia_request_irq K (world s) (link s) of
        (ret, l, w) \<Rightarrow> (ret, log (Request_irq ret) (s\<lparr>link := l, world := w\<rparr>)))"

definition request_configuration :: "'w services \<Rightarrow> 'w sys \<Rightarrow> int \<times> 'w sys" where
  "request_configuration K s =
     (case pcmcia_request_configuration K (world s) (link s) of
        (ret, l, w) \<Rightarrow>
          (ret, log (Request_configuration (conf (link s)) ret) (s\<lparr>link := l, world := w\<rparr>)))"

subsection \<open>The check of one configuration table entry\<close>

text \<open>\<^verbatim>\<open>p->present & (1 << CISTPL_POWER_VNOM)\<close> and
  \<^verbatim>\<open>p->param[CISTPL_POWER_VNOM] / 10000\<close> for a power descriptor \<open>p\<close>.\<close>

definition vnom_present :: "hdr \<Rightarrow> cistpl_power_t \<Rightarrow> bool" where
  "vnom_present h p \<longleftrightarrow>
     (ucast (present p) :: u_int) AND push_bit (CISTPL_POWER_VNOM h) 1 \<noteq> 0"

definition vnom :: "hdr \<Rightarrow> cistpl_power_t \<Rightarrow> u_int" where
  "vnom h p = param p (CISTPL_POWER_VNOM h) div 10000"

text \<open>The label \<^verbatim>\<open>next_entry\<close>.\<close>

definition next_entry :: "hdr \<Rightarrow> 'w services \<Rightarrow> 'w sys \<Rightarrow> int \<times> 'w sys" where
  "next_entry h K s = (- ENODEV h, disable_device K s)"

text \<open>Lines 247 to 263, the check of Vcc: the state with the \<^verbatim>\<open>DEBUG\<close> statement
  recorded when it is reached, and whether the jump to \<^verbatim>\<open>next_entry\<close> is taken.\<close>

definition check_vcc ::
  "hdr \<Rightarrow> int \<Rightarrow> cistpl_cftable_entry_t \<Rightarrow> cistpl_cftable_entry_t \<Rightarrow> u_int \<Rightarrow> 'w sys
   \<Rightarrow> bool \<times> 'w sys" where
  "check_vcc h ignore_cis_vcc cfg dflt vcc_sock s =
     (if vnom_present h (vcc cfg) then
        (if vcc_sock \<noteq> vnom h (vcc cfg)
         then (ignore_cis_vcc = 0, log (Debug_vcc_mismatch vcc_sock (vnom h (vcc cfg))) s)
         else (False, s))
      else if vnom_present h (vcc dflt) then
        (if vcc_sock \<noteq> vnom h (vcc dflt)
         then (ignore_cis_vcc = 0, log (Debug_vcc_mismatch vcc_sock (vnom h (vcc dflt))) s)
         else (False, s))
      else (False, s))"

text \<open>Lines 265 to 270: Vpp from the entry, else from the default entry, else untouched.\<close>

definition set_vpp ::
  "hdr \<Rightarrow> cistpl_cftable_entry_t \<Rightarrow> cistpl_cftable_entry_t \<Rightarrow> 'w sys \<Rightarrow> 'w sys" where
  "set_vpp h cfg dflt s =
     (if vnom_present h (vpp1 cfg) then upd_conf (\<lambda>c. c\<lparr>Vpp := vnom h (vpp1 cfg)\<rparr>) s
      else if vnom_present h (vpp1 dflt) then upd_conf (\<lambda>c. c\<lparr>Vpp := vnom h (vpp1 dflt)\<rparr>) s
      else s)"

text \<open>Lines 278 to 291: the I/O request filled from the window descriptor \<open>iot\<close>.\<close>

definition io_window_settings :: "hdr \<Rightarrow> cistpl_io_t \<Rightarrow> io_req_t \<Rightarrow> io_req_t" where
  "io_window_settings h iot r =
     (let r = r\<lparr>Attributes1 := IO_DATA_PATH_WIDTH_AUTO h\<rparr>;
          r = (if (ucast (flags iot) :: u_int) AND CISTPL_IO_8BIT h = 0
               then r\<lparr>Attributes1 := IO_DATA_PATH_WIDTH_16 h\<rparr> else r);
          r = (if (ucast (flags iot) :: u_int) AND CISTPL_IO_16BIT h = 0
               then r\<lparr>Attributes1 := IO_DATA_PATH_WIDTH_8 h\<rparr> else r);
          r = r\<lparr>IOAddrLines := ucast (flags iot) AND CISTPL_IO_LINES_MASK h\<rparr>;
          r = r\<lparr>BasePort1 := base (win iot 0)\<rparr>;
          r = r\<lparr>NumPorts1 := len (win iot 0)\<rparr>
      in if nwin iot > 1
         then r\<lparr>Attributes2 := Attributes1 r, BasePort2 := base (win iot 1),
                NumPorts2 := len (win iot 1)\<rparr>
         else r)"

text \<open>Lines 265 to 301, what follows the check of Vcc.\<close>

definition config_check_settings ::
  "hdr \<Rightarrow> 'w services \<Rightarrow> cistpl_cftable_entry_t \<Rightarrow> cistpl_cftable_entry_t \<Rightarrow> 'w sys
   \<Rightarrow> int \<times> 'w sys" where
  "config_check_settings h K cfg dflt s =
     (let s = set_vpp h cfg dflt s;
          s = upd_conf (\<lambda>c. c\<lparr>Attributes := Attributes c OR CONF_ENABLE_IRQ h\<rparr>) s;
          s = upd_io (\<lambda>r. r\<lparr>NumPorts1 := 0, NumPorts2 := 0\<rparr>) s
      in if nwin (cfio cfg) > 0 \<or> nwin (cfio dflt) > 0 then
           let iot = (if nwin (cfio cfg) \<noteq> 0 then cfio cfg else cfio dflt);
               s = upd_io (io_window_settings h iot) s;
               (ret, s) = request_io K s
           in if ret \<noteq> 0 then next_entry h K s else (0, s)
         else (0, s))"

text \<open>\<^verbatim>\<open>spectrum_cs_config_check(p_dev, cfg, dflt, vcc, priv_data)\<close>; the module
  parameter \<^verbatim>\<open>ignore_cis_vcc\<close> is an argument.\<close>

definition spectrum_cs_config_check ::
  "hdr \<Rightarrow> 'w services \<Rightarrow> int \<Rightarrow> cistpl_cftable_entry_t \<Rightarrow> cistpl_cftable_entry_t \<Rightarrow> u_int
   \<Rightarrow> 'w sys \<Rightarrow> int \<times> 'w sys" where
  "spectrum_cs_config_check h K ignore_cis_vcc cfg dflt vcc_sock s =
     (if index cfg = 0 then next_entry h K s
      else
        let (reject, s) = check_vcc h ignore_cis_vcc cfg dflt vcc_sock s
        in if reject then next_entry h K s
           else config_check_settings h K cfg dflt s)"

text \<open>Modelled from the spec: \<^verbatim>\<open>pcmcia_loop_config\<close>, the scan of the configuration
  table, belongs to the PCMCIA core and is not in the driver's file. Following
  section 4.2 of the specification, the candidate entries are taken in order; an entry
  that the check rejects is passed over and the scan continues; the first entry that
  the check accepts ends the scan with 0; when the entries are exhausted the scan
  fails, here with the code \<open>nomatch\<close>.\<close>

fun pcmcia_loop_config ::
  "(cistpl_cftable_entry_t \<Rightarrow> cistpl_cftable_entry_t \<Rightarrow> u_int \<Rightarrow> 'w sys \<Rightarrow> int \<times> 'w sys)
   \<Rightarrow> int \<Rightarrow> (cistpl_cftable_entry_t \<times> cistpl_cftable_entry_t) list \<Rightarrow> u_int \<Rightarrow> 'w sys
   \<Rightarrow> int \<times> 'w sys" where
  "pcmcia_loop_config conf_check nomatch [] vcc_sock s = (nomatch, s)"
| "pcmcia_loop_config conf_check nomatch ((cfg, dflt) # es) vcc_sock s =
     (case conf_check cfg dflt vcc_sock s of
        (ret, s') \<Rightarrow>
          if ret = 0 then (0, s') else pcmcia_loop_config conf_check nomatch es vcc_sock s')"

subsection \<open>Release and configuration\<close>

text \<open>\<^verbatim>\<open>spectrum_cs_release(link)\<close>. The spin lock around the increment orders it
  against the interrupt handler and has no effect of its own on the state. The
  increment \<^verbatim>\<open>priv->hw_unavailable++\<close> is the addition of 1 on 32-bit words.\<close>

definition spectrum_cs_release :: "'w services \<Rightarrow> 'w sys \<Rightarrow> 'w sys" where
  "spectrum_cs_release K s =
     (let s = upd_priv (\<lambda>p. p\<lparr>hw_unavailable := hw_unavailable p + 1\<rparr>) s;
          s = disable_device K s
      in if iobase (hw (priv s)) \<noteq> 0
         then log (Ioport_unmap (iobase (hw (priv s))))
                (s\<lparr>world := ioport_unmap K (world s) (iobase (hw (priv s)))\<rparr>)
         else s)"

datatype message = No_matching_CIS_configuration | Orinoco_init_failed | Orinoco_if_add_failed

definition printk :: "message \<Rightarrow> 'w sys \<Rightarrow> 'w sys" where
  "printk m s =
     log (Printk (case m of
            No_matching_CIS_configuration \<Rightarrow>
              ''spectrum_cs: GetNextTuple(): No matching CIS configuration.  Maybe you need the ignore_cis_vcc=1 parameter.''
          | Orinoco_init_failed \<Rightarrow> ''spectrum_cs: orinoco_init() failed''
          | Orinoco_if_add_failed \<Rightarrow> ''spectrum_cs: orinoco_if_add() failed'')) s"

text \<open>The labels \<^verbatim>\<open>failed\<close> and \<^verbatim>\<open>cs_failed\<close> of \<^verbatim>\<open>spectrum_cs_config\<close>.\<close>

definition config_failed :: "hdr \<Rightarrow> 'w services \<Rightarrow> 'w sys \<Rightarrow> int \<times> 'w sys" where
  "config_failed h K s = (- ENODEV h, spectrum_cs_release K s)"

definition config_cs_failed ::
  "hdr \<Rightarrow> 'w services \<Rightarrow> int \<Rightarrow> int \<Rightarrow> 'w sys \<Rightarrow> int \<times> 'w sys" where
  "config_cs_failed h K last_fn last_ret s = config_failed h K (cs_error last_fn last_ret s)"

text \<open>\<^verbatim>\<open>spectrum_cs_config(link)\<close>. When \<^verbatim>\<open>ioport_map\<close> returns \<^verbatim>\<open>NULL\<close> the jump
  to \<^verbatim>\<open>cs_failed\<close> finds \<^verbatim>\<open>last_fn\<close> and \<^verbatim>\<open>last_ret\<close> as the successful
  \<^verbatim>\<open>CS_CHECK(RequestIRQ, ...)\<close> left them.\<close>

definition spectrum_cs_config ::
  "hdr \<Rightarrow> 'w services \<Rightarrow> int \<Rightarrow> conf_reg_t \<Rightarrow> 'w sys \<Rightarrow> int \<times> 'w sys" where
  "spectrum_cs_config h K ignore_cis_vcc reg0 s =
     (let (last_ret, s) =
            pcmcia_loop_config (spectrum_cs_config_check h K ignore_cis_vcc)
              (no_more_items K) (cftable K (world s)) (socket_Vcc K (world s)) s
      in if last_ret \<noteq> 0 then
           let s = (if ignore_cis_vcc = 0 then printk No_matching_CIS_configuration s else s);
               s = cs_error (RequestIO h) last_ret s
           in config_failed h K s
      else
      let last_fn = RequestIRQ h;
          (last_ret, s) = request_irq K s
      in if last_ret \<noteq> 0 then config_cs_failed h K last_fn last_ret s
      else
      let (mem, w) = ioport_map K (world s) (BasePort1 (io (link s))) (NumPorts1 (io (link s)));
          s = log (Ioport_map (BasePort1 (io (link s))) (NumPorts1 (io (link s))) mem)
                (s\<lparr>world := w\<rparr>)
      in if mem = 0 then config_cs_failed h K last_fn last_ret s
      else
      let s = log (Hermes_struct_init mem (HERMES_16BIT_REGSPACING h))
                (upd_priv (\<lambda>p. p\<lparr>hw := hermes_struct_init K (hw p) mem
                                          (HERMES_16BIT_REGSPACING h)\<rparr>) s);
          last_fn = RequestConfiguration h;
          (last_ret, s) = request_configuration K s
      in if last_ret \<noteq> 0 then config_cs_failed h K last_fn last_ret s
      else
      let s = upd_priv (\<lambda>p. p\<lparr>node := (node p)\<lparr>major := 0, minor := 0\<rparr>\<rparr>) s;
          (ret, s) = spectrum_cs_hard_reset h K reg0 s
      in if ret \<noteq> 0 then config_failed h K s
      else
      let (ret, p, w) = orinoco_init K (world s) (priv s);
          s = log (Orinoco_init ret) (s\<lparr>priv := p, world := w\<rparr>)
      in if ret \<noteq> 0 then config_failed h K (printk Orinoco_init_failed s)
      else
      let (ret, p, w) = orinoco_if_add K (world s) (priv s) (BasePort1 (io (link s)))
                          (AssignedIRQ (irq (link s)));
          s = log (Orinoco_if_add (BasePort1 (io (link s))) (AssignedIRQ (irq (link s))) ret)
                (s\<lparr>priv := p, world := w\<rparr>)
      in if ret \<noteq> 0 then config_failed h K (printk Orinoco_if_add_failed s)
      else
      let s = upd_priv (\<lambda>p. p\<lparr>node := (node p)\<lparr>dev_name := ndev_name p\<rparr>\<rparr>) s;
          s = s\<lparr>link := (link s)\<lparr>dev_node := True\<rparr>\<rparr>
      in (0, s))"

subsection \<open>A simulated socket for concrete runs\<close>

text \<open>Values for the header constants: those of the Linux 2.6 headers for the error
  number, the register offsets, the tuple flags and the attributes, and four distinct
  numbers for the services.\<close>

definition hdr0 :: hdr where
  "hdr0 = \<lparr>ENODEV = 19, CS_READ = 1, CS_WRITE = 2, CISREG_COR = 0, CISREG_CCSR = 2,
           COR_SOFT_RESET = 0x80, CISTPL_POWER_VNOM = 0, CISTPL_IO_LINES_MASK = 0x1f,
           CISTPL_IO_8BIT = 0x20, CISTPL_IO_16BIT = 0x40, CONF_ENABLE_IRQ = 1,
           IO_DATA_PATH_WIDTH_8 = 0, IO_DATA_PATH_WIDTH_16 = 8,
           IO_DATA_PATH_WIDTH_AUTO = 0x10, AccessConfigurationRegister = 0,
           RequestIO = 31, RequestIRQ = 32, RequestConfiguration = 30,
           HERMES_16BIT_REGSPACING = 0\<rparr>"

text \<open>The simulated world: a card that is present or not, with its two registers; the
  register access numbered \<open>fail_at\<close> (from 1) fails with code 5; a soft reset
  turns the memory width bit of CCSR on; the ports listed in \<open>busy\<close> cannot be
  reserved.\<close>

record sim =
  card_present :: int
  cor :: u_int
  ccsr :: u_int
  accesses :: nat
  fail_at :: nat
  table :: "(cistpl_cftable_entry_t \<times> cistpl_cftable_entry_t) list"
  sock_vcc :: u_int
  busy :: "u_int list"

definition sim_access :: "sim \<Rightarrow> pcmcia_device \<Rightarrow> conf_reg_t \<Rightarrow> int \<times> conf_reg_t \<times> sim" where
  "sim_access w l reg =
     (let w = w\<lparr>accesses := Suc (accesses w)\<rparr>
      in if accesses w = fail_at w then (5, reg, w)
         else if Action reg = 1
         then (0, reg\<lparr>Value := (if Offset reg = 0 then cor w else ccsr w)\<rparr>, w)
         else if Offset reg = 0
         then (0, reg, w\<lparr>cor := Value reg,
                         ccsr := (if Value reg AND 0x80 \<noteq> 0 then ccsr w OR 0x10 else ccsr w)\<rparr>)
         else (0, reg, w\<lparr>ccsr := Value reg\<rparr>))"

definition sim_request_io :: "sim \<Rightarrow> pcmcia_device \<Rightarrow> int \<times> pcmcia_device \<times> sim" where
  "sim_request_io w l = (if BasePort1 (io l) \<in> set (busy w) then (-16, l, w) else (0, l, w))"

definition sim_services :: "sim services" where
  "sim_services =
     \<lparr>pcmcia_dev_present = (\<lambda>w l. card_present w),
      pcmcia_access_configuration_register = sim_access,
      pcmcia_request_io = sim_request_io,
      pcmcia_disable_device = (\<lambda>w l. (l, w)),
      pcmcia_request_irq = (\<lambda>w l. (0, l\<lparr>irq := \<lparr>AssignedIRQ = 3\<rparr>\<rparr>, w)),
      pcmcia_request_configuration = (\<lambda>w l. (0, l, w)),
      ioport_map = (\<lambda>w port nr. (unat port + 65536, w)),
      ioport_unmap = (\<lambda>w a. w),
      hermes_struct_init = (\<lambda>hw a spacing. hw\<lparr>iobase := a\<rparr>),
      orinoco_init = (\<lambda>w p. (0, p, w)),
      orinoco_if_add = (\<lambda>w p port i. (0, p, w)),
      cftable = table,
      socket_Vcc = sock_vcc,
      no_more_items = 31\<rparr>"

definition sim0 :: sim where
  "sim0 = \<lparr>card_present = 1, cor = 0x41, ccsr = 0x07, accesses = 0, fail_at = 0,
           table = [], sock_vcc = 50, busy = []\<rparr>"

definition link0 :: pcmcia_device where
  "link0 = \<lparr>conf = \<lparr>Attributes = 0, Vpp = 0, IntType = 2\<rparr>,
            io = \<lparr>BasePort1 = 0, NumPorts1 = 0, Attributes1 = 0, BasePort2 = 0,
                  NumPorts2 = 0, Attributes2 = 0, IOAddrLines = 0\<rparr>,
            irq = \<lparr>AssignedIRQ = 0\<rparr>, dev_node = False\<rparr>"

definition priv0 :: orinoco_private where
  "priv0 = \<lparr>hw = \<lparr>iobase = 0\<rparr>, hw_unavailable = 0,
            node = \<lparr>dev_name = [], major = 0, minor = 0\<rparr>, ndev_name = ''eth1''\<rparr>"

definition sys0 :: "sim \<Rightarrow> sim sys" where
  "sys0 w = \<lparr>link = link0, priv = priv0, world = w, calls = []\<rparr>"

text \<open>What the local \<^verbatim>\<open>reg\<close> of \<^verbatim>\<open>spectrum_reset\<close> holds at entry in the runs.\<close>

definition reg_stack :: conf_reg_t where
  "reg_stack = \<lparr>Function = 0xAA, Action = 0xDEAD, Offset = 7, Value = 0x1234\<rparr>"

text \<open>Power descriptors with and without a nominal voltage, window descriptors with
  no, one and two windows, and an entry built from them.\<close>

definition no_power :: cistpl_power_t where
  "no_power = \<lparr>present = 0, param = (\<lambda>i. 0)\<rparr>"

definition power :: "u_int \<Rightarrow> cistpl_power_t" where
  "power v = \<lparr>present = 1, param = (\<lambda>i. if i = 0 then v else 0)\<rparr>"

definition no_win :: "nat \<Rightarrow> cistpl_io_win" where
  "no_win i = \<lparr>base = 0, len = 0\<rparr>"

definition no_io :: cistpl_io_t where
  "no_io = \<lparr>flags = 0, nwin = 0, win = no_win\<rparr>"

definition io1 :: "u_char \<Rightarrow> u_int \<Rightarrow> u_int \<Rightarrow> cistpl_io_t" where
  "io1 f b n = \<lparr>flags = f, nwin = 1, win = no_win(0 := \<lparr>base = b, len = n\<rparr>)\<rparr>"

definition io2 :: "u_char \<Rightarrow> u_int \<Rightarrow> u_int \<Rightarrow> u_int \<Rightarrow> u_int \<Rightarrow> cistpl_io_t" where
  "io2 f b n b2 n2 =
     \<lparr>flags = f, nwin = 2,
      win = no_win(0 := \<lparr>base = b, len = n\<rparr>, 1 := \<lparr>base = b2, len = n2\<rparr>)\<rparr>"

definition entry ::
  "u_char \<Rightarrow> cistpl_power_t \<Rightarrow> cistpl_power_t \<Rightarrow> cistpl_io_t \<Rightarrow> cistpl_cftable_entry_t" where
  "entry i v p w = \<lparr>index = i, vcc = v, vpp1 = p, cfio = w\<rparr>"

definition no_dflt :: cistpl_cftable_entry_t where
  "no_dflt = entry 0 no_power no_power no_io"

text \<open>Entries of the runs. The voltages of the table are in units of 10 microvolts, the
  voltage of the socket in tenths of a volt: 500000 and 50 both stand for 5 V. The
  flags 0x40 and 0x20 are the 16-bit and the 8-bit capability.\<close>

definition cf_3v3 :: cistpl_cftable_entry_t where
  "cf_3v3 = entry 1 (power 330000) no_power (io1 0x40 0x300 16)"

definition cf_noflags :: cistpl_cftable_entry_t where
  "cf_noflags = entry 1 no_power no_power (io1 0 0x300 16)"

definition cf_two :: cistpl_cftable_entry_t where
  "cf_two = entry 1 no_power no_power (io2 0x60 0x300 16 0x400 8)"

definition cf_index0 :: cistpl_cftable_entry_t where
  "cf_index0 = entry 0 (power 500000) no_power (io1 0x40 0x300 16)"

definition cf_vpp :: cistpl_cftable_entry_t where
  "cf_vpp = entry 1 (power 500000) (power 1200000) (io1 0x40 0x300 16)"

definition cf_novpp :: cistpl_cftable_entry_t where
  "cf_novpp = entry 2 (power 500000) no_power (io1 0x40 0x320 16)"

section \<open>Properties\<close>

subsection \<open>Auxiliary facts\<close>

lemma calls_log [simp]: "calls (log c s) = calls s @ [c]"
  by (simp add: log_def)

lemmas reset_defs = spectrum_reset_def access_configuration_register_def reset_cs_failed_def
  udelay_def cs_error_def Let_def

lemmas sim_defs = hdr0_def sim_access_def sim_request_io_def sim_services_def sim0_def
  link0_def priv0_def sys0_def reg_stack_def no_power_def power_def no_win_def no_io_def
  io1_def io2_def entry_def no_dflt_def

lemmas run_defs = reset_defs log_def HCR_IDLE_def HCR_RUN_def HCR_MEM16_def

text \<open>The trace of a reset that returns 0: the five register accesses, all
  successful, with the three delays.\<close>

lemma spectrum_reset_success:
  assumes "ENODEV h \<noteq> 0" and "spectrum_reset h K reg0 s idle = (0, s')"
  shows "\<exists>r1 r2 r3 r4 r5.
    calls s' = calls s @
      [Access_configuration_register
         (reg0\<lparr>Function := 0, Action := CS_READ h, Offset := CISREG_COR h\<rparr>) 0 r1,
       Access_configuration_register
         (r1\<lparr>Action := CS_WRITE h, Offset := CISREG_COR h,
             Value := Value r1 OR COR_SOFT_RESET h\<rparr>) 0 r2,
       Udelay 1000,
       Access_configuration_register
         (r2\<lparr>Action := CS_READ h, Offset := CISREG_CCSR h\<rparr>) 0 r3,
       Access_configuration_register
         (r3\<lparr>Action := CS_WRITE h, Offset := CISREG_CCSR h,
             Value := (if idle \<noteq> 0 then HCR_IDLE else HCR_RUN) OR (Value r3 AND HCR_MEM16)\<rparr>)
         0 r4,
       Udelay 1000,
       Access_configuration_register
         (r4\<lparr>Action := CS_WRITE h, Offset := CISREG_COR h,
             Value := Value r1 AND NOT (COR_SOFT_RESET h)\<rparr>) 0 r5,
       Udelay 1000]"
  using assms
  by (auto simp: reset_defs split: if_splits prod.splits)

lemma or_and_not: "((a :: u_int) OR (v AND m)) AND NOT m = a AND NOT m"
  by (rule bit_eqI) (auto simp: bit_simps)

lemma or_and_same: "((a :: u_int) OR (v AND m)) AND m = (a AND m) OR (v AND m)"
  by (rule bit_eqI) (auto simp: bit_simps)

lemma idle_bits: "(HCR_IDLE OR (v AND HCR_MEM16)) AND NOT HCR_MEM16 = HCR_IDLE"
  by (simp add: or_and_not) (simp add: HCR_IDLE_def HCR_MEM16_def)

lemma mem16_bit: "(HCR_IDLE OR (v AND HCR_MEM16)) AND HCR_MEM16 = v AND HCR_MEM16"
  by (simp add: or_and_same) (simp add: HCR_IDLE_def HCR_MEM16_def)

lemma cor_bits: "bit ((v :: u_int) AND NOT m) n \<longleftrightarrow> bit v n \<and> \<not> bit m n"
  by (auto simp: bit_simps dest: bit_imp_le_length)

text \<open>The outcomes of a reset: nothing done, all accesses successful, or a first
  failing access followed by the error report.\<close>

lemma spectrum_reset_failure:
  assumes "spectrum_reset h K reg0 s idle = (r, s')"
  shows "(calls s' = calls s \<and> r = - ENODEV h) \<or>
    (\<exists>tr. calls s' = calls s @ tr \<and> r = 0 \<and>
       (\<forall>a c b. Access_configuration_register a c b \<in> set tr \<longrightarrow> c = 0)) \<or>
    (\<exists>tr a c b. calls s' = calls s @ tr @
         [Access_configuration_register a c b, Cs_error (AccessConfigurationRegister h) c] \<and>
       c \<noteq> 0 \<and> r = - ENODEV h \<and>
       (\<forall>a c b. Access_configuration_register a c b \<in> set tr \<longrightarrow> c = 0))"
  using assms
  apply (simp add: reset_defs split: if_splits prod.splits)
       apply auto
  done

lemma split_at_failure:
  assumes "tr @ [Access_configuration_register a c b, e] =
      pre @ Access_configuration_register q rc q' # post"
    and "\<forall>a c b. Access_configuration_register a c b \<in> set tr \<longrightarrow> c = 0"
    and "rc \<noteq> 0" and "\<forall>a c b. e \<noteq> Access_configuration_register a c b"
  shows "pre = tr \<and> rc = c \<and> post = [e]"
  using assms
proof (induction tr arbitrary: pre)
  case Nil
  then show ?case
    by (auto simp: Cons_eq_append_conv)
next
  case (Cons x tr)
  then show ?case
    by (cases pre) auto
qed

subsection \<open>The reset sequence\<close>

text \<open>C1: when \<^verbatim>\<open>spectrum_reset\<close> is called with \<^verbatim>\<open>idle\<close> set and returns 0, the value
  \<open>v\<close> written to CCSR is \<^verbatim>\<open>HCR_IDLE\<close> or-ed with the memory width bit of the
  value that the read of CCSR returned, and that read comes after the write of COR
  with the soft reset bit and the delay. Outside the memory width bit \<open>v\<close> is the idle
  encoding; the memory width bit of \<open>v\<close> is the one read after the soft reset.\<close>

theorem reset_idle_ccsr:
  assumes "ENODEV h \<noteq> 0" and "idle \<noteq> 0"
    and "spectrum_reset h K reg0 s idle = (0, s')"
  shows "\<exists>r1 r2 r3 r4 r5 v.
    v = HCR_IDLE OR (Value r3 AND HCR_MEM16) \<and>
    calls s' = calls s @
      [Access_configuration_register
         (reg0\<lparr>Function := 0, Action := CS_READ h, Offset := CISREG_COR h\<rparr>) 0 r1,
       Access_configuration_register
         (r1\<lparr>Action := CS_WRITE h, Offset := CISREG_COR h,
             Value := Value r1 OR COR_SOFT_RESET h\<rparr>) 0 r2,
       Udelay 1000,
       Access_configuration_register
         (r2\<lparr>Action := CS_READ h, Offset := CISREG_CCSR h\<rparr>) 0 r3,
       Access_configuration_register
         (r3\<lparr>Action := CS_WRITE h, Offset := CISREG_CCSR h, Value := v\<rparr>) 0 r4,
       Udelay 1000,
       Access_configuration_register
         (r4\<lparr>Action := CS_WRITE h, Offset := CISREG_COR h,
             Value := Value r1 AND NOT (COR_SOFT_RESET h)\<rparr>) 0 r5,
       Udelay 1000] \<and>
    v AND NOT HCR_MEM16 = HCR_IDLE \<and>
    v AND HCR_MEM16 = Value r3 AND HCR_MEM16"
  using spectrum_reset_success [OF assms(1) assms(3)] assms(2)
  by (auto simp: idle_bits mem16_bit)

text \<open>A run on the simulated socket: CCSR holds the run encoding with the memory width
  bit off before the reset, the soft reset turns the bit on, and the reset leaves the
  idle encoding with the bit on.\<close>

theorem reset_idle_ccsr_witness:
  "ENODEV hdr0 \<noteq> 0 \<and>
   spectrum_reset hdr0 sim_services reg_stack (sys0 sim0) 1 =
     (0, snd (spectrum_reset hdr0 sim_services reg_stack (sys0 sim0) 1)) \<and>
   ccsr sim0 AND HCR_MEM16 = 0 \<and>
   ccsr (world (snd (spectrum_reset hdr0 sim_services reg_stack (sys0 sim0) 1))) = 0x1E \<and>
   (\<exists>(r3 :: conf_reg_t) v. v = HCR_IDLE OR (Value r3 AND HCR_MEM16) \<and>
      v AND NOT HCR_MEM16 = HCR_IDLE \<and> v AND HCR_MEM16 = Value r3 AND HCR_MEM16)"
proof (intro conjI)
  show h1: "ENODEV hdr0 \<noteq> 0"
    by (simp add: hdr0_def)
  have h2: "(1::int) \<noteq> 0"
    by simp
  show h3: "spectrum_reset hdr0 sim_services reg_stack (sys0 sim0) 1 =
     (0, snd (spectrum_reset hdr0 sim_services reg_stack (sys0 sim0) 1))"
    by (simp add: run_defs sim_defs)
  show "ccsr sim0 AND HCR_MEM16 = 0"
    by (simp add: sim0_def HCR_MEM16_def)
  show "ccsr (world (snd (spectrum_reset hdr0 sim_services reg_stack (sys0 sim0) 1))) = 0x1E"
    by (simp add: run_defs sim_defs)
  from reset_idle_ccsr [OF h1 h2 h3]
  show "\<exists>(r3 :: conf_reg_t) v. v = HCR_IDLE OR (Value r3 AND HCR_MEM16) \<and>
      v AND NOT HCR_MEM16 = HCR_IDLE \<and> v AND HCR_MEM16 = Value r3 AND HCR_MEM16"
    by blast
qed

text \<open>C2: when \<^verbatim>\<open>spectrum_reset\<close> returns 0, the last register access writes to COR
  the value \<open>v\<close> that the first access read from COR, with the soft reset bit
  cleared: no bit of \<^verbatim>\<open>COR_SOFT_RESET\<close> is set in \<open>v\<close>, and every other bit of \<open>v\<close> is
  the bit of the saved value.\<close>

theorem reset_restores_cor:
  assumes "ENODEV h \<noteq> 0"
    and "spectrum_reset h K reg0 s idle = (0, s')"
  shows "\<exists>r1 r2 r3 r4 r5 v.
    v = Value r1 AND NOT (COR_SOFT_RESET h) \<and>
    calls s' = calls s @
      [Access_configuration_register
         (reg0\<lparr>Function := 0, Action := CS_READ h, Offset := CISREG_COR h\<rparr>) 0 r1,
       Access_configuration_register
         (r1\<lparr>Action := CS_WRITE h, Offset := CISREG_COR h,
             Value := Value r1 OR COR_SOFT_RESET h\<rparr>) 0 r2,
       Udelay 1000,
       Access_configuration_register
         (r2\<lparr>Action := CS_READ h, Offset := CISREG_CCSR h\<rparr>) 0 r3,
       Access_configuration_register
         (r3\<lparr>Action := CS_WRITE h, Offset := CISREG_CCSR h,
             Value := (if idle \<noteq> 0 then HCR_IDLE else HCR_RUN) OR (Value r3 AND HCR_MEM16)\<rparr>)
         0 r4,
       Udelay 1000,
       Access_configuration_register
         (r4\<lparr>Action := CS_WRITE h, Offset := CISREG_COR h, Value := v\<rparr>) 0 r5,
       Udelay 1000] \<and>
    v AND COR_SOFT_RESET h = 0 \<and>
    (\<forall>n. bit v n \<longleftrightarrow> bit (Value r1) n \<and> \<not> bit (COR_SOFT_RESET h) n)"
proof -
  from spectrum_reset_success [OF assms] obtain r1 r2 r3 r4 r5 where
    tr: "calls s' = calls s @
      [Access_configuration_register
         (reg0\<lparr>Function := 0, Action := CS_READ h, Offset := CISREG_COR h\<rparr>) 0 r1,
       Access_configuration_register
         (r1\<lparr>Action := CS_WRITE h, Offset := CISREG_COR h,
             Value := Value r1 OR COR_SOFT_RESET h\<rparr>) 0 r2,
       Udelay 1000,
       Access_configuration_register
         (r2\<lparr>Action := CS_READ h, Offset := CISREG_CCSR h\<rparr>) 0 r3,
       Access_configuration_register
         (r3\<lparr>Action := CS_WRITE h, Offset := CISREG_CCSR h,
             Value := (if idle \<noteq> 0 then HCR_IDLE else HCR_RUN) OR (Value r3 AND HCR_MEM16)\<rparr>)
         0 r4,
       Udelay 1000,
       Access_configuration_register
         (r4\<lparr>Action := CS_WRITE h, Offset := CISREG_COR h,
             Value := Value r1 AND NOT (COR_SOFT_RESET h)\<rparr>) 0 r5,
       Udelay 1000]"
    by blast
  have "(Value r1 AND NOT (COR_SOFT_RESET h)) AND COR_SOFT_RESET h = 0"
    by (rule bit_eqI) (auto simp: bit_simps)
  with tr cor_bits show ?thesis
    by blast
qed

text \<open>A run on the simulated socket, where COR holds the value before the reset again
  once the reset is done.\<close>

theorem reset_restores_cor_witness:
  "ENODEV hdr0 \<noteq> 0 \<and>
   spectrum_reset hdr0 sim_services reg_stack (sys0 sim0) 0 =
     (0, snd (spectrum_reset hdr0 sim_services reg_stack (sys0 sim0) 0)) \<and>
   cor (world (snd (spectrum_reset hdr0 sim_services reg_stack (sys0 sim0) 0))) = cor sim0 \<and>
   (\<exists>(r1 :: conf_reg_t) v.
      v = Value r1 AND NOT (COR_SOFT_RESET hdr0) \<and> v AND COR_SOFT_RESET hdr0 = 0)"
proof (intro conjI)
  show h1: "ENODEV hdr0 \<noteq> 0"
    by (simp add: hdr0_def)
  show h2: "spectrum_reset hdr0 sim_services reg_stack (sys0 sim0) 0 =
     (0, snd (spectrum_reset hdr0 sim_services reg_stack (sys0 sim0) 0))"
    by (simp add: run_defs sim_defs)
  show "cor (world (snd (spectrum_reset hdr0 sim_services reg_stack (sys0 sim0) 0))) = cor sim0"
    by (simp add: run_defs sim_defs)
  from reset_restores_cor [OF h1 h2]
  show "\<exists>(r1 :: conf_reg_t) v.
      v = Value r1 AND NOT (COR_SOFT_RESET hdr0) \<and> v AND COR_SOFT_RESET hdr0 = 0"
    by blast
qed

text \<open>C3: when the presence check reports the device absent, \<^verbatim>\<open>spectrum_reset\<close>
  returns \<^verbatim>\<open>-ENODEV\<close> and leaves the state as it was, the trace included: no
  configuration register is read or written.\<close>

theorem reset_absent:
  "pcmcia_dev_present K (world s) (link s) = 0 \<Longrightarrow>
     spectrum_reset h K reg0 s idle = (- ENODEV h, s)"
  by (simp add: spectrum_reset_def)

theorem reset_absent_witness:
  "pcmcia_dev_present sim_services (world (sys0 (sim0\<lparr>card_present := 0\<rparr>)))
     (link (sys0 (sim0\<lparr>card_present := 0\<rparr>))) = 0 \<and>
   spectrum_reset hdr0 sim_services reg_stack (sys0 (sim0\<lparr>card_present := 0\<rparr>)) 1 =
     (- 19, sys0 (sim0\<lparr>card_present := 0\<rparr>)) \<and>
   calls (snd (spectrum_reset hdr0 sim_services reg_stack
     (sys0 (sim0\<lparr>card_present := 0\<rparr>)) 1)) = []"
proof -
  have h: "pcmcia_dev_present sim_services (world (sys0 (sim0\<lparr>card_present := 0\<rparr>)))
     (link (sys0 (sim0\<lparr>card_present := 0\<rparr>))) = 0"
    by (simp add: sim_defs)
  from reset_absent [OF h, of hdr0 reg_stack 1] h show ?thesis
    by (simp add: hdr0_def sys0_def)
qed

text \<open>C9, as the code has it: a register access that fails ends the reset. Whatever
  access of the trace returned a non-zero code \<open>rc\<close>, every access before it returned
  0 and the only call after it is the error report
  \<^verbatim>\<open>cs_error(link, AccessConfigurationRegister, rc)\<close>: no later access, no write that
  undoes an earlier one. The reset then returns \<^verbatim>\<open>-ENODEV\<close>. Neither the report nor
  the value returned names the step, and the value is the one returned for an absent
  device.\<close>

theorem reset_failure_aborts:
  assumes "spectrum_reset h K reg0 s idle = (r, s')"
    and "calls s' = calls s @ pre @ Access_configuration_register q rc q' # post"
    and "rc \<noteq> 0"
  shows "post = [Cs_error (AccessConfigurationRegister h) rc] \<and> r = - ENODEV h \<and>
    (\<forall>a c b. Access_configuration_register a c b \<in> set pre \<longrightarrow> c = 0)"
proof -
  from spectrum_reset_failure [OF assms(1)] consider
    (absent) "calls s' = calls s"
    | (completed) tr where "calls s' = calls s @ tr"
      "\<forall>a c b. Access_configuration_register a c b \<in> set tr \<longrightarrow> c = 0"
    | (failed) tr a c b where "calls s' = calls s @ tr @
         [Access_configuration_register a c b, Cs_error (AccessConfigurationRegister h) c]"
      "c \<noteq> 0" "r = - ENODEV h"
      "\<forall>a c b. Access_configuration_register a c b \<in> set tr \<longrightarrow> c = 0"
    by blast
  then show ?thesis
  proof cases
    case absent
    with assms(2) show ?thesis
      by simp
  next
    case completed
    from completed(1) assms(2)
    have "tr = pre @ Access_configuration_register q rc q' # post"
      by simp
    then have "Access_configuration_register q rc q' \<in> set tr"
      by simp
    with completed(2) have "rc = 0"
      by blast
    with assms(3) show ?thesis
      by simp
  next
    case failed
    from failed(1) assms(2) have "tr @
         [Access_configuration_register a c b, Cs_error (AccessConfigurationRegister h) c] =
       pre @ Access_configuration_register q rc q' # post"
      by simp
    from split_at_failure [OF this failed(4) assms(3)]
    have "pre = tr" and "rc = c" and "post = [Cs_error (AccessConfigurationRegister h) c]"
      by simp_all
    with failed(3,4) show ?thesis
      by simp
  qed
qed

text \<open>A run on the simulated socket in which the third access, the read of CCSR,
  fails with code 5.\<close>

theorem reset_failure_aborts_witness:
  "calls (snd (spectrum_reset hdr0 sim_services reg_stack (sys0 (sim0\<lparr>fail_at := 3\<rparr>)) 1)) =
     calls (sys0 (sim0\<lparr>fail_at := 3\<rparr>)) @
     [Access_configuration_register \<lparr>Function = 0, Action = 1, Offset = 0, Value = 0x1234\<rparr> 0
        \<lparr>Function = 0, Action = 1, Offset = 0, Value = 0x41\<rparr>,
      Access_configuration_register \<lparr>Function = 0, Action = 2, Offset = 0, Value = 0xC1\<rparr> 0
        \<lparr>Function = 0, Action = 2, Offset = 0, Value = 0xC1\<rparr>,
      Udelay 1000] @
     Access_configuration_register \<lparr>Function = 0, Action = 1, Offset = 2, Value = 0xC1\<rparr> 5
        \<lparr>Function = 0, Action = 1, Offset = 2, Value = 0xC1\<rparr> #
     [Cs_error (AccessConfigurationRegister hdr0) 5] \<and>
   (5 :: int) \<noteq> 0 \<and>
   fst (spectrum_reset hdr0 sim_services reg_stack (sys0 (sim0\<lparr>fail_at := 3\<rparr>)) 1) = - 19"
proof (intro conjI)
  have h1: "spectrum_reset hdr0 sim_services reg_stack (sys0 (sim0\<lparr>fail_at := 3\<rparr>)) 1 =
     (fst (spectrum_reset hdr0 sim_services reg_stack (sys0 (sim0\<lparr>fail_at := 3\<rparr>)) 1),
      snd (spectrum_reset hdr0 sim_services reg_stack (sys0 (sim0\<lparr>fail_at := 3\<rparr>)) 1))"
    by simp
  show h2: "calls (snd (spectrum_reset hdr0 sim_services reg_stack
       (sys0 (sim0\<lparr>fail_at := 3\<rparr>)) 1)) =
     calls (sys0 (sim0\<lparr>fail_at := 3\<rparr>)) @
     [Access_configuration_register \<lparr>Function = 0, Action = 1, Offset = 0, Value = 0x1234\<rparr> 0
        \<lparr>Function = 0, Action = 1, Offset = 0, Value = 0x41\<rparr>,
      Access_configuration_register \<lparr>Function = 0, Action = 2, Offset = 0, Value = 0xC1\<rparr> 0
        \<lparr>Function = 0, Action = 2, Offset = 0, Value = 0xC1\<rparr>,
      Udelay 1000] @
     Access_configuration_register \<lparr>Function = 0, Action = 1, Offset = 2, Value = 0xC1\<rparr> 5
        \<lparr>Function = 0, Action = 1, Offset = 2, Value = 0xC1\<rparr> #
     [Cs_error (AccessConfigurationRegister hdr0) 5]"
    by (simp add: run_defs sim_defs)
  show h3: "(5 :: int) \<noteq> 0"
    by simp
  from reset_failure_aborts [OF h1 h2 h3]
  have "fst (spectrum_reset hdr0 sim_services reg_stack (sys0 (sim0\<lparr>fail_at := 3\<rparr>)) 1) =
      - ENODEV hdr0"
    by (rule conjunct1 [OF conjunct2])
  then show "fst (spectrum_reset hdr0 sim_services reg_stack
      (sys0 (sim0\<lparr>fail_at := 3\<rparr>)) 1) = - 19"
    by (simp add: hdr0_def)
qed

text \<open>C9, as the specification has it, fails: a failure at the first access, a
  failure at the fourth access and an absent device all return \<^verbatim>\<open>-ENODEV\<close>, and the
  error reports of the two failures are the same.\<close>

theorem reset_failure_step_not_reported:
  "fst (spectrum_reset hdr0 sim_services reg_stack (sys0 (sim0\<lparr>fail_at := 1\<rparr>)) 1) = - 19 \<and>
   fst (spectrum_reset hdr0 sim_services reg_stack (sys0 (sim0\<lparr>fail_at := 4\<rparr>)) 1) = - 19 \<and>
   fst (spectrum_reset hdr0 sim_services reg_stack (sys0 (sim0\<lparr>card_present := 0\<rparr>)) 1) = - 19 \<and>
   last (calls (snd (spectrum_reset hdr0 sim_services reg_stack
     (sys0 (sim0\<lparr>fail_at := 1\<rparr>)) 1))) = Cs_error (AccessConfigurationRegister hdr0) 5 \<and>
   last (calls (snd (spectrum_reset hdr0 sim_services reg_stack
     (sys0 (sim0\<lparr>fail_at := 4\<rparr>)) 1))) = Cs_error (AccessConfigurationRegister hdr0) 5"
  by (simp add: run_defs sim_defs)

subsection \<open>The check of a configuration table entry\<close>

lemmas check_defs = spectrum_cs_config_check_def check_vcc_def next_entry_def
  config_check_settings_def set_vpp_def upd_conf_def upd_io_def request_io_def
  disable_device_def Let_def

lemma vnom_present_bit: "vnom_present h p \<longleftrightarrow> bit (present p) (CISTPL_POWER_VNOM h)"
  by (auto simp: vnom_present_def bit_simps push_bit_eq_mult and_exp_eq_0_iff_not_bit
      dest: bit_imp_le_length)
lemma calls_check_vcc:
  "calls (snd (check_vcc h ign cfg dflt v s)) = calls s \<or>
   (\<exists>a b. calls (snd (check_vcc h ign cfg dflt v s)) = calls s @ [Debug_vcc_mismatch a b])"
  by (simp add: check_vcc_def)

lemma link_check_vcc [simp]: "link (snd (check_vcc h ign cfg dflt v s)) = link s"
  by (simp add: check_vcc_def log_def)


lemma calls_request_io:
  "calls (snd (request_io K s)) = calls s @ [Request_io (io (link s)) (fst (request_io K s))]"
  by (simp add: request_io_def split_beta)

lemma calls_disable_device: "calls (disable_device K s) = calls s @ [Disable_device]"
  by (simp add: disable_device_def split_beta)

lemma calls_set_vpp [simp]: "calls (set_vpp h cfg dflt s) = calls s"
  by (simp add: set_vpp_def upd_conf_def)

lemma io_set_vpp [simp]: "io (link (set_vpp h cfg dflt s)) = io (link s)"
  by (simp add: set_vpp_def upd_conf_def)

lemma settings_request:
  assumes "0 < nwin (cfio cfg) \<or> 0 < nwin (cfio dflt)"
  shows "\<exists>rc post. calls (snd (config_check_settings h K cfg dflt s)) =
    calls s @ Request_io (io_window_settings h
      (if nwin (cfio cfg) \<noteq> 0 then cfio cfg else cfio dflt)
      ((io (link s))\<lparr>NumPorts1 := 0, NumPorts2 := 0\<rparr>)) rc # post"
  using assms
  by (simp add: config_check_settings_def next_entry_def Let_def split_beta
      calls_request_io calls_disable_device upd_io_def upd_conf_def)

lemma io_window_settings_fields:
  "Attributes1 (io_window_settings h iot r) =
     (if (ucast (flags iot) :: u_int) AND CISTPL_IO_16BIT h \<noteq> 0
      then if (ucast (flags iot) :: u_int) AND CISTPL_IO_8BIT h \<noteq> 0
           then IO_DATA_PATH_WIDTH_AUTO h else IO_DATA_PATH_WIDTH_16 h
      else IO_DATA_PATH_WIDTH_8 h)"
  "BasePort1 (io_window_settings h iot r) = base (win iot 0)"
  "NumPorts1 (io_window_settings h iot r) = len (win iot 0)"
  "BasePort2 (io_window_settings h iot r) =
     (if 1 < nwin iot then base (win iot 1) else BasePort2 r)"
  "NumPorts2 (io_window_settings h iot r) =
     (if 1 < nwin iot then len (win iot 1) else NumPorts2 r)"
  "Attributes2 (io_window_settings h iot r) =
     (if 1 < nwin iot then Attributes1 (io_window_settings h iot r) else Attributes2 r)"
  "IOAddrLines (io_window_settings h iot r) = ucast (flags iot) AND CISTPL_IO_LINES_MASK h"
  by (simp_all add: io_window_settings_def Let_def)
lemmas ent_defs = cf_3v3_def cf_noflags_def cf_two_def cf_index0_def
  cf_vpp_def cf_novpp_def

lemmas check_run_defs = check_defs io_window_settings_def vnom_present_def vnom_def log_def
  ent_defs

text \<open>C4: for an entry whose index is not 0, which is what reaches the check of Vcc,
  the voltage compared with the voltage of the socket is the nominal Vcc of the entry
  divided by 10000 when the entry declares one, else that of the default entry when
  the default entry declares one; when neither declares one the check passes. When
  the two voltages differ the mismatch is logged, and the entry is rejected with
  \<^verbatim>\<open>-ENODEV\<close> after the device is disabled, unless \<^verbatim>\<open>ignore_cis_vcc\<close> is set: then the
  entry goes through the remaining settings and checks as an entry that matches.\<close>

theorem vcc_check_policy:
  assumes "index cfg \<noteq> 0"
  shows "spectrum_cs_config_check h K ignore_cis_vcc cfg dflt vcc_sock s =
    (case (if bit (present (vcc cfg)) (CISTPL_POWER_VNOM h)
           then Some (param (vcc cfg) (CISTPL_POWER_VNOM h) div 10000)
           else if bit (present (vcc dflt)) (CISTPL_POWER_VNOM h)
           then Some (param (vcc dflt) (CISTPL_POWER_VNOM h) div 10000)
           else None) of
       None \<Rightarrow> config_check_settings h K cfg dflt s
     | Some cis \<Rightarrow>
         if vcc_sock = cis then config_check_settings h K cfg dflt s
         else if ignore_cis_vcc = 0
         then (- ENODEV h, disable_device K (log (Debug_vcc_mismatch vcc_sock cis) s))
         else config_check_settings h K cfg dflt (log (Debug_vcc_mismatch vcc_sock cis) s))"
  using assms
  by (simp add: spectrum_cs_config_check_def check_vcc_def next_entry_def vnom_present_bit
      vnom_def)

text \<open>A 3.3 V entry on a 5 V socket: with \<^verbatim>\<open>ignore_cis_vcc\<close> set the mismatch is
  logged and the scan selects the entry; without it the entry is rejected.\<close>

theorem vcc_check_policy_witness:
  "index cf_3v3 \<noteq> 0 \<and>
   spectrum_cs_config_check hdr0 sim_services 1 cf_3v3 no_dflt 50 (sys0 sim0) =
     config_check_settings hdr0 sim_services cf_3v3 no_dflt
       (log (Debug_vcc_mismatch 50 33) (sys0 sim0)) \<and>
   fst (pcmcia_loop_config (spectrum_cs_config_check hdr0 sim_services 1) 31
     [(cf_3v3, no_dflt)] 50 (sys0 sim0)) = 0 \<and>
   spectrum_cs_config_check hdr0 sim_services 0 cf_3v3 no_dflt 50 (sys0 sim0) =
     (- 19, disable_device sim_services (log (Debug_vcc_mismatch 50 33) (sys0 sim0)))"
proof (intro conjI)
  show h: "index cf_3v3 \<noteq> 0"
    by (simp add: cf_3v3_def entry_def)
  from vcc_check_policy [OF h, of hdr0 sim_services 1 no_dflt 50 "sys0 sim0"]
  show "spectrum_cs_config_check hdr0 sim_services 1 cf_3v3 no_dflt 50 (sys0 sim0) =
     config_check_settings hdr0 sim_services cf_3v3 no_dflt
       (log (Debug_vcc_mismatch 50 33) (sys0 sim0))"
    by (simp add: cf_3v3_def entry_def power_def hdr0_def)
  show "fst (pcmcia_loop_config (spectrum_cs_config_check hdr0 sim_services 1) 31
     [(cf_3v3, no_dflt)] 50 (sys0 sim0)) = 0"
    by (simp add: check_run_defs sim_defs)
  from vcc_check_policy [OF h, of hdr0 sim_services 0 no_dflt 50 "sys0 sim0"]
  show "spectrum_cs_config_check hdr0 sim_services 0 cf_3v3 no_dflt 50 (sys0 sim0) =
     (- 19, disable_device sim_services (log (Debug_vcc_mismatch 50 33) (sys0 sim0)))"
    by (simp add: cf_3v3_def entry_def power_def hdr0_def)
qed

text \<open>C5, as the code has it: for an entry with a non-zero index that passes the check
  of Vcc and has an I/O window, of its own or else of the default entry, the request
  passed to \<^verbatim>\<open>pcmcia_request_io\<close> has the width attribute
  \<^verbatim>\<open>IO_DATA_PATH_WIDTH_AUTO\<close> when the descriptor has both the 8-bit and the 16-bit
  flag, \<^verbatim>\<open>IO_DATA_PATH_WIDTH_16\<close> when it has the 16-bit flag only, and
  \<^verbatim>\<open>IO_DATA_PATH_WIDTH_8\<close> whenever the 16-bit flag is absent. Base and length of
  window 1 are copied; base, length and attribute of window 2 are set when the
  descriptor has more than one window, and otherwise the length of window 2 is 0 and
  its base and attribute are left as they were.\<close>

theorem io_window_request:
  assumes "index cfg \<noteq> 0"
    and "\<not> fst (check_vcc h ign cfg dflt v s)"
    and "0 < nwin (cfio cfg) \<or> 0 < nwin (cfio dflt)"
  shows "\<exists>rq rc post.
    calls (snd (spectrum_cs_config_check h K ign cfg dflt v s)) =
      calls (snd (check_vcc h ign cfg dflt v s)) @ Request_io rq rc # post \<and>
    (let iot = (if nwin (cfio cfg) \<noteq> 0 then cfio cfg else cfio dflt);
         has8 = ((ucast (flags iot) :: u_int) AND CISTPL_IO_8BIT h \<noteq> 0);
         has16 = ((ucast (flags iot) :: u_int) AND CISTPL_IO_16BIT h \<noteq> 0)
     in Attributes1 rq =
          (if has16 then if has8 then IO_DATA_PATH_WIDTH_AUTO h else IO_DATA_PATH_WIDTH_16 h
           else IO_DATA_PATH_WIDTH_8 h) \<and>
        BasePort1 rq = base (win iot 0) \<and> NumPorts1 rq = len (win iot 0) \<and>
        (if 1 < nwin iot
         then BasePort2 rq = base (win iot 1) \<and> NumPorts2 rq = len (win iot 1) \<and>
              Attributes2 rq = Attributes1 rq
         else BasePort2 rq = BasePort2 (io (link s)) \<and> NumPorts2 rq = 0 \<and>
              Attributes2 rq = Attributes2 (io (link s))))"
proof -
  let ?s = "snd (check_vcc h ign cfg dflt v s)"
  let ?iot = "if nwin (cfio cfg) \<noteq> 0 then cfio cfg else cfio dflt"
  let ?rq = "io_window_settings h ?iot ((io (link s))\<lparr>NumPorts1 := 0, NumPorts2 := 0\<rparr>)"
  from assms(1,2) have "spectrum_cs_config_check h K ign cfg dflt v s =
      config_check_settings h K cfg dflt ?s"
    by (simp add: spectrum_cs_config_check_def split_beta)
  with settings_request [OF assms(3), of h K ?s] obtain rc post where
    tr: "calls (snd (spectrum_cs_config_check h K ign cfg dflt v s)) =
      calls ?s @ Request_io ?rq rc # post"
    by auto
  have "let iot = ?iot;
         has8 = ((ucast (flags iot) :: u_int) AND CISTPL_IO_8BIT h \<noteq> 0);
         has16 = ((ucast (flags iot) :: u_int) AND CISTPL_IO_16BIT h \<noteq> 0)
     in Attributes1 ?rq =
          (if has16 then if has8 then IO_DATA_PATH_WIDTH_AUTO h else IO_DATA_PATH_WIDTH_16 h
           else IO_DATA_PATH_WIDTH_8 h) \<and>
        BasePort1 ?rq = base (win iot 0) \<and> NumPorts1 ?rq = len (win iot 0) \<and>
        (if 1 < nwin iot
         then BasePort2 ?rq = base (win iot 1) \<and> NumPorts2 ?rq = len (win iot 1) \<and>
              Attributes2 ?rq = Attributes1 ?rq
         else BasePort2 ?rq = BasePort2 (io (link s)) \<and> NumPorts2 ?rq = 0 \<and>
              Attributes2 ?rq = Attributes2 (io (link s)))"
    unfolding Let_def by (simp only: io_window_settings_fields) simp
  with tr show ?thesis
    by blast
qed

text \<open>An entry with both flags and two windows.\<close>

theorem io_window_request_witness:
  "index cf_two \<noteq> 0 \<and>
   \<not> fst (check_vcc hdr0 0 cf_two no_dflt 50 (sys0 sim0)) \<and>
   (0 < nwin (cfio cf_two) \<or> 0 < nwin (cfio no_dflt)) \<and>
   (\<exists>rq rc post.
      calls (snd (spectrum_cs_config_check hdr0 sim_services 0 cf_two no_dflt 50 (sys0 sim0))) =
        calls (snd (check_vcc hdr0 0 cf_two no_dflt 50 (sys0 sim0))) @ Request_io rq rc # post \<and>
      Attributes1 rq = IO_DATA_PATH_WIDTH_AUTO hdr0 \<and>
      BasePort1 rq = 0x300 \<and> NumPorts1 rq = 16 \<and>
      BasePort2 rq = 0x400 \<and> NumPorts2 rq = 8 \<and> Attributes2 rq = Attributes1 rq)"
proof (intro conjI)
  show h1: "index cf_two \<noteq> 0"
    by (simp add: cf_two_def entry_def)
  show h2: "\<not> fst (check_vcc hdr0 0 cf_two no_dflt 50 (sys0 sim0))"
    by (simp add: check_run_defs sim_defs)
  show h3: "0 < nwin (cfio cf_two) \<or> 0 < nwin (cfio no_dflt)"
    by (simp add: cf_two_def entry_def io2_def)
  from io_window_request [OF h1 h2 h3, of sim_services]
  show "\<exists>rq rc post.
      calls (snd (spectrum_cs_config_check hdr0 sim_services 0 cf_two no_dflt 50 (sys0 sim0))) =
        calls (snd (check_vcc hdr0 0 cf_two no_dflt 50 (sys0 sim0))) @ Request_io rq rc # post \<and>
      Attributes1 rq = IO_DATA_PATH_WIDTH_AUTO hdr0 \<and>
      BasePort1 rq = 0x300 \<and> NumPorts1 rq = 16 \<and>
      BasePort2 rq = 0x400 \<and> NumPorts2 rq = 8 \<and> Attributes2 rq = Attributes1 rq"
    by (simp add: Let_def cf_two_def entry_def io2_def no_win_def hdr0_def)
qed

text \<open>C5, as the specification has it, fails: for a descriptor with neither the 8-bit
  nor the 16-bit flag the width attribute of the request is
  \<^verbatim>\<open>IO_DATA_PATH_WIDTH_8\<close>, which is neither the automatic nor the 16-bit one.\<close>

theorem io_width_without_flags:
  "calls (snd (spectrum_cs_config_check hdr0 sim_services 0 cf_noflags no_dflt 50 (sys0 sim0))) =
     [Request_io \<lparr>BasePort1 = 0x300, NumPorts1 = 16, Attributes1 = IO_DATA_PATH_WIDTH_8 hdr0,
        BasePort2 = 0, NumPorts2 = 0, Attributes2 = 0, IOAddrLines = 0\<rparr> 0] \<and>
   flags (cfio cf_noflags) = 0 \<and>
   IO_DATA_PATH_WIDTH_8 hdr0 \<noteq> IO_DATA_PATH_WIDTH_AUTO hdr0 \<and>
   IO_DATA_PATH_WIDTH_8 hdr0 \<noteq> IO_DATA_PATH_WIDTH_16 hdr0"
  by (simp add: check_run_defs sim_defs)

subsection \<open>The scan of the configuration table\<close>

text \<open>A scan that has rejected the entries of \<open>pre\<close> goes on with the entries after
  them, and a scan that ends with 0 has stopped at an entry that the check accepted.\<close>

lemma loop_config_rejected:
  "fst (pcmcia_loop_config chk nomatch pre v s) \<noteq> 0 \<Longrightarrow>
   pcmcia_loop_config chk nomatch (pre @ es) v s =
     pcmcia_loop_config chk nomatch es v (snd (pcmcia_loop_config chk nomatch pre v s))"
  by (induction pre arbitrary: s) (auto split: prod.splits if_splits)

lemma loop_config_selected:
  assumes "nomatch \<noteq> 0" and "fst (pcmcia_loop_config chk nomatch es v s) = 0"
  shows "\<exists>pre c d post. es = pre @ (c, d) # post \<and>
    fst (pcmcia_loop_config chk nomatch pre v s) \<noteq> 0 \<and>
    chk c d v (snd (pcmcia_loop_config chk nomatch pre v s)) =
      pcmcia_loop_config chk nomatch es v s"
  using assms
proof (induction es arbitrary: s)
  case Nil
  then show ?case
    by simp
next
  case (Cons e es)
  obtain c d where e: "e = (c, d)"
    by (cases e)
  obtain ret s' where chk: "chk c d v s = (ret, s')"
    by (cases "chk c d v s")
  show ?case
  proof (cases "ret = 0")
    case True
    with e chk Cons.prems(1) have "e # es = [] @ (c, d) # es \<and>
      fst (pcmcia_loop_config chk nomatch [] v s) \<noteq> 0 \<and>
      chk c d v (snd (pcmcia_loop_config chk nomatch [] v s)) =
        pcmcia_loop_config chk nomatch (e # es) v s"
      by simp
    then show ?thesis
      by blast
  next
    case False
    with e chk have step: "pcmcia_loop_config chk nomatch (e # es) v s =
      pcmcia_loop_config chk nomatch es v s'"
      by simp
    with Cons.prems(2) have "fst (pcmcia_loop_config chk nomatch es v s') = 0"
      by simp
    from Cons.IH [OF Cons.prems(1) this] obtain pre c' d' post where
      es: "es = pre @ (c', d') # post"
      and rej: "fst (pcmcia_loop_config chk nomatch pre v s') \<noteq> 0"
      and sel: "chk c' d' v (snd (pcmcia_loop_config chk nomatch pre v s')) =
        pcmcia_loop_config chk nomatch es v s'"
      by blast
    from False e chk have pre: "pcmcia_loop_config chk nomatch (e # pre) v s =
      pcmcia_loop_config chk nomatch pre v s'"
      by simp
    from es have "e # es = (e # pre) @ (c', d') # post"
      by simp
    moreover from pre rej have "fst (pcmcia_loop_config chk nomatch (e # pre) v s) \<noteq> 0"
      by simp
    moreover from pre sel step
    have "chk c' d' v (snd (pcmcia_loop_config chk nomatch (e # pre) v s)) =
      pcmcia_loop_config chk nomatch (e # es) v s"
      by simp
    ultimately show ?thesis
      by blast
  qed
qed

lemma conf_set_vpp:
  "conf (link (set_vpp h cfg dflt s)) =
     (conf (link s))\<lparr>Vpp := (if vnom_present h (vpp1 cfg) then vnom h (vpp1 cfg)
        else if vnom_present h (vpp1 dflt) then vnom h (vpp1 dflt)
        else Vpp (conf (link s)))\<rparr>"
  by (simp add: set_vpp_def upd_conf_def)

lemma link_set_vpp:
  "link (set_vpp h cfg dflt s) =
     (link s)\<lparr>conf := (conf (link s))\<lparr>Vpp :=
        (if vnom_present h (vpp1 cfg) then vnom h (vpp1 cfg)
         else if vnom_present h (vpp1 dflt) then vnom h (vpp1 dflt)
         else Vpp (conf (link s)))\<rparr>\<rparr>"
  by (simp add: set_vpp_def upd_conf_def)

lemma world_set_vpp [simp]: "world (set_vpp h cfg dflt s) = world s"
  by (simp add: set_vpp_def upd_conf_def)

lemma world_check_vcc [simp]: "world (snd (check_vcc h ign cfg dflt v s)) = world s"
  by (simp add: check_vcc_def log_def)

text \<open>What the check leaves in \<open>conf\<close> when Card Services does not touch the
  configuration request it is handed.\<close>

lemma settings_conf:
  assumes "\<forall>w l. conf (fst (snd (pcmcia_request_io K w l))) = conf l"
    and "\<forall>w l. conf (fst (pcmcia_disable_device K w l)) = conf l"
  shows "conf (link (snd (config_check_settings h K cfg dflt s))) =
      (conf (link s))\<lparr>Vpp := (if vnom_present h (vpp1 cfg) then vnom h (vpp1 cfg)
        else if vnom_present h (vpp1 dflt) then vnom h (vpp1 dflt)
        else Vpp (conf (link s))),
        Attributes := Attributes (conf (link s)) OR CONF_ENABLE_IRQ h\<rparr>"
  using assms
  by (simp add: config_check_settings_def next_entry_def Let_def split_beta
      request_io_def disable_device_def upd_io_def upd_conf_def log_def conf_set_vpp)

text \<open>A rejection by the settings is a failed reservation, and leaves in the link what
  Card Services returned for the link with the settings written.\<close>

lemma settings_rejected:
  assumes "fst (config_check_settings h K cfg dflt s) \<noteq> 0"
  shows "0 < nwin (cfio cfg) \<or> 0 < nwin (cfio dflt)"
  using assms
  by (auto simp: config_check_settings_def Let_def split: if_splits)

lemma settings_rejected_link:
  assumes "fst (config_check_settings h K cfg dflt s) \<noteq> 0"
  shows "link (snd (config_check_settings h K cfg dflt s)) =
    (let rq = pcmcia_request_io K (world s)
       ((link s)\<lparr>conf := (conf (link s))\<lparr>Vpp :=
            (if vnom_present h (vpp1 cfg) then vnom h (vpp1 cfg)
             else if vnom_present h (vpp1 dflt) then vnom h (vpp1 dflt)
             else Vpp (conf (link s))),
            Attributes := Attributes (conf (link s)) OR CONF_ENABLE_IRQ h\<rparr>,
          io := io_window_settings h (if nwin (cfio cfg) \<noteq> 0 then cfio cfg else cfio dflt)
            ((io (link s))\<lparr>NumPorts1 := 0, NumPorts2 := 0\<rparr>)\<rparr>)
     in fst (pcmcia_disable_device K (snd (snd rq)) (fst (snd rq))))"
proof -
  from assms have win: "0 < nwin (cfio cfg) \<or> 0 < nwin (cfio dflt)"
    by (rule settings_rejected)
  with assms show ?thesis
    by (simp add: config_check_settings_def next_entry_def Let_def split_beta
      request_io_def disable_device_def upd_io_def upd_conf_def log_def link_set_vpp
      split: if_splits)
qed

text \<open>C6: an entry with index 0 is rejected, whatever its other fields: the check
  disables the device and returns \<^verbatim>\<open>-ENODEV\<close> without looking at them. So a scan that
  ends with 0 has rejected the entries before some entry whose index is not 0, and its
  result is the result of the check of that entry.\<close>

theorem index_zero_never_selected:
  assumes "ENODEV h \<noteq> 0" and "nomatch \<noteq> 0"
  shows "(index cfg = 0 \<longrightarrow>
      spectrum_cs_config_check h K ign cfg dflt v s = (- ENODEV h, disable_device K s) \<and>
      fst (spectrum_cs_config_check h K ign cfg dflt v s) \<noteq> 0) \<and>
    (fst (pcmcia_loop_config (spectrum_cs_config_check h K ign) nomatch es v s) = 0 \<longrightarrow>
      (\<exists>pre c d post. es = pre @ (c, d) # post \<and> index c \<noteq> 0 \<and>
         fst (pcmcia_loop_config (spectrum_cs_config_check h K ign) nomatch pre v s) \<noteq> 0 \<and>
         spectrum_cs_config_check h K ign c d v
           (snd (pcmcia_loop_config (spectrum_cs_config_check h K ign) nomatch pre v s)) =
         pcmcia_loop_config (spectrum_cs_config_check h K ign) nomatch es v s))"
proof (intro conjI impI)
  assume "index cfg = 0"
  then show "spectrum_cs_config_check h K ign cfg dflt v s = (- ENODEV h, disable_device K s)"
    by (simp add: spectrum_cs_config_check_def next_entry_def)
  with assms(1) show "fst (spectrum_cs_config_check h K ign cfg dflt v s) \<noteq> 0"
    by simp
next
  let ?chk = "spectrum_cs_config_check h K ign"
  assume sel: "fst (pcmcia_loop_config ?chk nomatch es v s) = 0"
  from loop_config_selected [OF assms(2) sel] obtain pre c d post where
    es: "es = pre @ (c, d) # post"
    and rej: "fst (pcmcia_loop_config ?chk nomatch pre v s) \<noteq> 0"
    and eq: "?chk c d v (snd (pcmcia_loop_config ?chk nomatch pre v s)) =
      pcmcia_loop_config ?chk nomatch es v s"
    by blast
  have "index c \<noteq> 0"
  proof
    assume "index c = 0"
    then have "fst (?chk c d v (snd (pcmcia_loop_config ?chk nomatch pre v s))) = - ENODEV h"
      by (simp add: spectrum_cs_config_check_def next_entry_def)
    with eq sel assms(1) show False
      by simp
  qed
  with es rej eq show "\<exists>pre c d post. es = pre @ (c, d) # post \<and> index c \<noteq> 0 \<and>
         fst (pcmcia_loop_config ?chk nomatch pre v s) \<noteq> 0 \<and>
         ?chk c d v (snd (pcmcia_loop_config ?chk nomatch pre v s)) =
         pcmcia_loop_config ?chk nomatch es v s"
    by blast
qed

text \<open>A table whose first entry has index 0 and a window that could be reserved: the
  scan passes over it and selects the second entry, with the window at 0x320.\<close>

theorem index_zero_never_selected_witness:
  "ENODEV hdr0 \<noteq> 0 \<and> (31 :: int) \<noteq> 0 \<and> index cf_index0 = 0 \<and>
   spectrum_cs_config_check hdr0 sim_services 0 cf_index0 no_dflt 50 (sys0 sim0) =
     (- 19, disable_device sim_services (sys0 sim0)) \<and>
   fst (pcmcia_loop_config (spectrum_cs_config_check hdr0 sim_services 0) 31
     [(cf_index0, no_dflt), (cf_novpp, no_dflt)] 50 (sys0 sim0)) = 0 \<and>
   BasePort1 (io (link (snd (pcmcia_loop_config (spectrum_cs_config_check hdr0 sim_services 0) 31
     [(cf_index0, no_dflt), (cf_novpp, no_dflt)] 50 (sys0 sim0))))) = 0x320 \<and>
   (\<exists>pre c d post. [(cf_index0, no_dflt), (cf_novpp, no_dflt)] = pre @ (c, d) # post \<and>
      index c \<noteq> 0)"
proof (intro conjI)
  show h1: "ENODEV hdr0 \<noteq> 0"
    by (simp add: hdr0_def)
  show h2: "(31 :: int) \<noteq> 0"
    by simp
  show h3: "index cf_index0 = 0"
    by (simp add: cf_index0_def entry_def)
  from index_zero_never_selected [OF h1 h2, of cf_index0 sim_services 0 no_dflt 50 "sys0 sim0"] h3
  show "spectrum_cs_config_check hdr0 sim_services 0 cf_index0 no_dflt 50 (sys0 sim0) =
     (- 19, disable_device sim_services (sys0 sim0))"
    by (simp add: hdr0_def)
  show h4: "fst (pcmcia_loop_config (spectrum_cs_config_check hdr0 sim_services 0) 31
     [(cf_index0, no_dflt), (cf_novpp, no_dflt)] 50 (sys0 sim0)) = 0"
    by (simp add: check_run_defs sim_defs)
  show "BasePort1 (io (link (snd (pcmcia_loop_config
     (spectrum_cs_config_check hdr0 sim_services 0) 31
     [(cf_index0, no_dflt), (cf_novpp, no_dflt)] 50 (sys0 sim0))))) = 0x320"
    by (simp add: check_run_defs sim_defs)
  from index_zero_never_selected [OF h1 h2, of cf_index0 sim_services 0 no_dflt 50 "sys0 sim0"
      "[(cf_index0, no_dflt), (cf_novpp, no_dflt)]"] h4
  show "\<exists>pre c d post. [(cf_index0, no_dflt), (cf_novpp, no_dflt)] = pre @ (c, d) # post \<and>
      index c \<noteq> 0"
    by blast
qed

text \<open>C10: the check writes Vpp, the interrupt attribute and the I/O request into the
  device before the reservation of the I/O window, and writes nothing back on the way
  to \<^verbatim>\<open>next_entry\<close>. For every entry that gets as far as these writes and is then
  rejected, the link afterwards is what \<^verbatim>\<open>pcmcia_request_io\<close> and
  \<^verbatim>\<open>pcmcia_disable_device\<close> returned for the link with the three writes, where the
  Vpp written is that of the entry, else that of its default entry, else the Vpp the
  device already had. When these two calls leave the configuration request as it is
  handed to them, that Vpp and the interrupt attribute stay in the device, and an
  entry accepted next ends with its own Vpp, else that of its default entry, else
  the Vpp left by the rejected entry.\<close>

theorem rejected_entry_writes_kept:
  assumes "\<forall>w l. conf (fst (snd (pcmcia_request_io K w l))) = conf l"
    and "\<forall>w l. conf (fst (pcmcia_disable_device K w l)) = conf l"
    and "index c1 \<noteq> 0" and "\<not> fst (check_vcc h ign c1 d1 v s)"
    and "spectrum_cs_config_check h K ign c1 d1 v s = (r1, s1)" and "r1 \<noteq> 0"
    and "index c2 \<noteq> 0" and "\<not> fst (check_vcc h ign c2 d2 v s1)"
    and "spectrum_cs_config_check h K ign c2 d2 v s1 = (0, s2)"
  shows "(let vpp_written =
          (if bit (present (vpp1 c1)) (CISTPL_POWER_VNOM h)
           then param (vpp1 c1) (CISTPL_POWER_VNOM h) div 10000
           else if bit (present (vpp1 d1)) (CISTPL_POWER_VNOM h)
           then param (vpp1 d1) (CISTPL_POWER_VNOM h) div 10000
           else Vpp (conf (link s)));
        rq = pcmcia_request_io K (world s)
          ((link s)\<lparr>conf := (conf (link s))\<lparr>Vpp := vpp_written,
               Attributes := Attributes (conf (link s)) OR CONF_ENABLE_IRQ h\<rparr>,
             io := io_window_settings h (if nwin (cfio c1) \<noteq> 0 then cfio c1 else cfio d1)
               ((io (link s))\<lparr>NumPorts1 := 0, NumPorts2 := 0\<rparr>)\<rparr>)
      in link s1 = fst (pcmcia_disable_device K (snd (snd rq)) (fst (snd rq))) \<and>
         Vpp (conf (link s1)) = vpp_written \<and>
         Attributes (conf (link s1)) = Attributes (conf (link s)) OR CONF_ENABLE_IRQ h \<and>
         Vpp (conf (link s2)) =
           (if bit (present (vpp1 c2)) (CISTPL_POWER_VNOM h)
            then param (vpp1 c2) (CISTPL_POWER_VNOM h) div 10000
            else if bit (present (vpp1 d2)) (CISTPL_POWER_VNOM h)
            then param (vpp1 d2) (CISTPL_POWER_VNOM h) div 10000
            else vpp_written))"
proof -
  let ?t1 = "snd (check_vcc h ign c1 d1 v s)"
  let ?t2 = "snd (check_vcc h ign c2 d2 v s1)"
  let ?v1 = "if bit (present (vpp1 c1)) (CISTPL_POWER_VNOM h)
           then param (vpp1 c1) (CISTPL_POWER_VNOM h) div 10000
           else if bit (present (vpp1 d1)) (CISTPL_POWER_VNOM h)
           then param (vpp1 d1) (CISTPL_POWER_VNOM h) div 10000
           else Vpp (conf (link s))"
  from assms(3,4,5) have run1: "config_check_settings h K c1 d1 ?t1 = (r1, s1)"
    by (simp add: spectrum_cs_config_check_def split_beta)
  from assms(7,8,9) have run2: "config_check_settings h K c2 d2 ?t2 = (0, s2)"
    by (simp add: spectrum_cs_config_check_def split_beta)
  from run1 assms(6) have rej: "fst (config_check_settings h K c1 d1 ?t1) \<noteq> 0"
    by simp
  from settings_rejected_link [OF rej] run1
  have l1: "link s1 =
      (let rq = pcmcia_request_io K (world s)
         ((link s)\<lparr>conf := (conf (link s))\<lparr>Vpp := ?v1,
              Attributes := Attributes (conf (link s)) OR CONF_ENABLE_IRQ h\<rparr>,
            io := io_window_settings h (if nwin (cfio c1) \<noteq> 0 then cfio c1 else cfio d1)
              ((io (link s))\<lparr>NumPorts1 := 0, NumPorts2 := 0\<rparr>)\<rparr>)
       in fst (pcmcia_disable_device K (snd (snd rq)) (fst (snd rq))))"
    by (simp add: vnom_present_bit vnom_def)
  from settings_conf [OF assms(1,2), of h c1 d1 ?t1] run1
  have c1: "conf (link s1) = (conf (link s))\<lparr>Vpp := ?v1,
      Attributes := Attributes (conf (link s)) OR CONF_ENABLE_IRQ h\<rparr>"
    by (simp add: vnom_present_bit vnom_def)
  from settings_conf [OF assms(1,2), of h c2 d2 ?t2] run2
  have c2: "Vpp (conf (link s2)) =
      (if bit (present (vpp1 c2)) (CISTPL_POWER_VNOM h)
       then param (vpp1 c2) (CISTPL_POWER_VNOM h) div 10000
       else if bit (present (vpp1 d2)) (CISTPL_POWER_VNOM h)
       then param (vpp1 d2) (CISTPL_POWER_VNOM h) div 10000
       else Vpp (conf (link s1)))"
    by (simp add: vnom_present_bit vnom_def)
  from c1 have v1: "Vpp (conf (link s1)) = ?v1"
    and a1: "Attributes (conf (link s1)) = Attributes (conf (link s)) OR CONF_ENABLE_IRQ h"
    by simp_all
  from l1 v1 a1 c2 show ?thesis
    unfolding Let_def by simp
qed

text \<open>Two tables on a socket where port 0x300 is taken. In the first, the first entry
  declares a Vpp of 12 V and is rejected when its window cannot be reserved; the second
  declares none, is selected, and the configuration ends with a Vpp of 12 V. In the
  second, the rejected entry takes the Vpp of 12 V from its default entry, and the
  entry selected next ends with it as well.\<close>

theorem rejected_entry_writes_kept_witness:
  "index cf_vpp \<noteq> 0 \<and>
   bit (present (vpp1 cf_vpp)) (CISTPL_POWER_VNOM hdr0) \<and>
   fst (spectrum_cs_config_check hdr0 sim_services 0 cf_vpp no_dflt 50
     (sys0 (sim0\<lparr>busy := [0x300]\<rparr>))) = - 19 \<and>
   \<not> bit (present (vpp1 cf_novpp)) (CISTPL_POWER_VNOM hdr0) \<and>
   \<not> bit (present (vpp1 no_dflt)) (CISTPL_POWER_VNOM hdr0) \<and>
   fst (pcmcia_loop_config (spectrum_cs_config_check hdr0 sim_services 0) 31
     [(cf_vpp, no_dflt), (cf_novpp, no_dflt)] 50 (sys0 (sim0\<lparr>busy := [0x300]\<rparr>))) = 0 \<and>
   Vpp (conf (link (sys0 (sim0\<lparr>busy := [0x300]\<rparr>)))) = 0 \<and>
   Vpp (conf (link (snd (pcmcia_loop_config (spectrum_cs_config_check hdr0 sim_services 0) 31
     [(cf_vpp, no_dflt), (cf_novpp, no_dflt)] 50 (sys0 (sim0\<lparr>busy := [0x300]\<rparr>)))))) = 120 \<and>
   fst (pcmcia_loop_config (spectrum_cs_config_check hdr0 sim_services 1) 31
     [(cf_3v3, cf_vpp), (cf_novpp, no_dflt)] 33 (sys0 (sim0\<lparr>busy := [0x300]\<rparr>))) = 0 \<and>
   Vpp (conf (link (snd (pcmcia_loop_config (spectrum_cs_config_check hdr0 sim_services 1) 31
     [(cf_3v3, cf_vpp), (cf_novpp, no_dflt)] 33
     (sys0 (sim0\<lparr>busy := [0x300]\<rparr>)))))) = 120"
proof -
  let ?s = "sys0 (sim0\<lparr>busy := [0x300]\<rparr>)"
  let ?chk = "spectrum_cs_config_check hdr0 sim_services 0"
  let ?s1 = "snd (?chk cf_vpp no_dflt 50 ?s)"
  let ?s2 = "snd (?chk cf_novpp no_dflt 50 ?s1)"
  have f1: "\<forall>w l. conf (fst (snd (pcmcia_request_io sim_services w l))) = conf l"
    by (simp add: sim_services_def sim_request_io_def)
  have f2: "\<forall>w l. conf (fst (pcmcia_disable_device sim_services w l)) = conf l"
    by (simp add: sim_services_def)
  have h3: "index cf_vpp \<noteq> 0"
    by (simp add: cf_vpp_def entry_def)
  have h4: "\<not> fst (check_vcc hdr0 0 cf_vpp no_dflt 50 ?s)"
    by (simp add: check_vcc_def vnom_present_def vnom_def ent_defs sim_defs)
  have h5: "bit (present (vpp1 cf_vpp)) (CISTPL_POWER_VNOM hdr0)"
    by (simp add: cf_vpp_def entry_def power_def hdr0_def)
  have r1: "fst (?chk cf_vpp no_dflt 50 ?s) = - 19"
    by (simp add: check_run_defs sim_defs)
  then have h6: "?chk cf_vpp no_dflt 50 ?s = (- 19, ?s1)"
    by (simp add: prod_eq_iff)
  have h7: "(- 19 :: int) \<noteq> 0"
    by simp
  have h8: "index cf_novpp \<noteq> 0"
    by (simp add: cf_novpp_def entry_def)
  have h9: "\<not> fst (check_vcc hdr0 0 cf_novpp no_dflt 50 ?s1)"
    by (simp add: check_vcc_def vnom_present_def vnom_def ent_defs sim_defs)
  have h10: "\<not> bit (present (vpp1 cf_novpp)) (CISTPL_POWER_VNOM hdr0)"
    by (simp add: cf_novpp_def entry_def no_power_def hdr0_def)
  have h11: "\<not> bit (present (vpp1 no_dflt)) (CISTPL_POWER_VNOM hdr0)"
    by (simp add: no_dflt_def entry_def no_power_def hdr0_def)
  have r2: "fst (?chk cf_novpp no_dflt 50 ?s1) = 0"
    by (simp add: check_run_defs sim_defs)
  then have h12: "?chk cf_novpp no_dflt 50 ?s1 = (0, ?s2)"
    by (simp add: prod_eq_iff)
  from rejected_entry_writes_kept [OF f1 f2 h3 h4 h6 h7 h8 h9 h12] h5 h10 h11
  have "Vpp (conf (link ?s2)) = param (vpp1 cf_vpp) (CISTPL_POWER_VNOM hdr0) div 10000"
    by (simp add: Let_def)
  then have v: "Vpp (conf (link ?s2)) = 120"
    by (simp add: cf_vpp_def entry_def power_def hdr0_def)
  have loop: "pcmcia_loop_config ?chk 31 [(cf_vpp, no_dflt), (cf_novpp, no_dflt)] 50 ?s =
      (0, ?s2)"
    by (simp add: split_beta r1 r2)
  have s0: "Vpp (conf (link ?s)) = 0"
    by (simp add: sim_defs)
  have da: "fst (pcmcia_loop_config (spectrum_cs_config_check hdr0 sim_services 1) 31
     [(cf_3v3, cf_vpp), (cf_novpp, no_dflt)] 33 ?s) = 0"
    by (simp add: check_run_defs sim_defs)
  have dv: "Vpp (conf (link (snd (pcmcia_loop_config
     (spectrum_cs_config_check hdr0 sim_services 1) 31
     [(cf_3v3, cf_vpp), (cf_novpp, no_dflt)] 33 ?s)))) = 120"
    by (simp add: check_run_defs sim_defs)
  from h3 h5 r1 h10 h11 loop v s0 da dv show ?thesis
    by simp
qed

subsection \<open>Release and configuration\<close>

text \<open>The increment of a C \<^verbatim>\<open>int\<close>, read as two's complement.\<close>

lemma sint_incr:
  "sint ((x :: c_int) + 1) = (if sint x = 2147483647 then - 2147483648 else sint x + 1)"
proof -
  have b: "- 2147483648 \<le> sint x" "sint x \<le> 2147483647"
    using sint_ge [of x] sint_lt [of x] by simp_all
  have "sint (x + 1) = signed_take_bit 31 (sint x + 1)"
    by (simp add: sint_word_ariths)
  also have "\<dots> = (if sint x = 2147483647 then - 2147483648 else sint x + 1)"
  proof (cases "sint x = 2147483647")
    case True
    then show ?thesis
      by simp
  next
    case False
    with b have "- (2 ^ 31) \<le> sint x + 1" and "sint x + 1 < 2 ^ 31"
      by simp_all
    then have "signed_take_bit 31 (sint x + 1) = sint x + 1"
      by (simp add: signed_take_bit_int_eq_self)
    with False show ?thesis
      by simp
  qed
  finally show ?thesis .
qed

lemma priv_disable_device [simp]: "priv (disable_device K s) = priv s"
  by (simp add: disable_device_def split_beta log_def)

lemma release_once:
  "priv (spectrum_cs_release K s) = (priv s)\<lparr>hw_unavailable := hw_unavailable (priv s) + 1\<rparr>"
  "calls (spectrum_cs_release K s) =
     calls s @ Disable_device #
       (if iobase (hw (priv s)) \<noteq> 0 then [Ioport_unmap (iobase (hw (priv s)))] else [])"
  by (simp_all add: spectrum_cs_release_def Let_def upd_priv_def calls_disable_device log_def)

lemmas config_defs = spectrum_cs_config_def spectrum_cs_hard_reset_def spectrum_cs_release_def
  config_failed_def config_cs_failed_def request_irq_def request_configuration_def
  printk_def upd_priv_def

text \<open>The hard reset never reports a failure, and every failure that
  \<^verbatim>\<open>spectrum_cs_config\<close> does report has gone through the release.\<close>

lemma hard_reset_returns_0: "fst (spectrum_cs_hard_reset h K reg0 s) = 0"
  by (simp add: spectrum_cs_hard_reset_def split_beta)

lemma config_failure_released:
  assumes "spectrum_cs_config h K ign reg0 s = (r, s')" and "r \<noteq> 0"
  shows "r = - ENODEV h \<and> (\<exists>t. s' = spectrum_cs_release K t)"
  using assms
  unfolding spectrum_cs_config_def config_cs_failed_def config_failed_def Let_def split_beta
  by (auto simp: hard_reset_returns_0 split: if_splits)

text \<open>C8, as the code has it: every call of \<^verbatim>\<open>spectrum_cs_release\<close> increments
  \<^verbatim>\<open>hw_unavailable\<close> (a 32-bit increment, which wraps from \<^verbatim>\<open>INT_MAX\<close> to
  \<^verbatim>\<open>INT_MIN\<close>), disables the device and, when \<^verbatim>\<open>iobase\<close> is not \<^verbatim>\<open>NULL\<close>, unmaps
  it; \<^verbatim>\<open>iobase\<close> is left as it was. A second call in succession therefore repeats the
  disabling and the unmapping and increments the counter once more, so that the
  counter after two calls is never the counter after one.\<close>

theorem release_repeats:
  "hw_unavailable (priv (spectrum_cs_release K s)) = hw_unavailable (priv s) + 1 \<and>
   sint (hw_unavailable (priv (spectrum_cs_release K s))) =
     (if sint (hw_unavailable (priv s)) = 2147483647 then - 2147483648
      else sint (hw_unavailable (priv s)) + 1) \<and>
   hw_unavailable (priv (spectrum_cs_release K (spectrum_cs_release K s))) =
     hw_unavailable (priv (spectrum_cs_release K s)) + 1 \<and>
   hw_unavailable (priv (spectrum_cs_release K (spectrum_cs_release K s))) \<noteq>
     hw_unavailable (priv (spectrum_cs_release K s)) \<and>
   iobase (hw (priv (spectrum_cs_release K s))) = iobase (hw (priv s)) \<and>
   calls (spectrum_cs_release K s) =
     calls s @ Disable_device #
       (if iobase (hw (priv s)) \<noteq> 0 then [Ioport_unmap (iobase (hw (priv s)))] else []) \<and>
   calls (spectrum_cs_release K (spectrum_cs_release K s)) =
     calls s @ Disable_device #
       (if iobase (hw (priv s)) \<noteq> 0 then [Ioport_unmap (iobase (hw (priv s)))] else []) @
     Disable_device #
       (if iobase (hw (priv s)) \<noteq> 0 then [Ioport_unmap (iobase (hw (priv s)))] else [])"
  by (simp add: release_once sint_incr)

text \<open>C8, as the specification has it, fails: with a mapped register window, the
  state after two releases differs from the state after one, in the counter and in a
  second unmapping of the same window.\<close>

theorem release_twice_differs:
  "calls (spectrum_cs_release sim_services
     (sys0 sim0\<lparr>priv := priv0\<lparr>hw := \<lparr>iobase = 66304\<rparr>\<rparr>\<rparr>)) =
     [Disable_device, Ioport_unmap 66304] \<and>
   calls (spectrum_cs_release sim_services (spectrum_cs_release sim_services
     (sys0 sim0\<lparr>priv := priv0\<lparr>hw := \<lparr>iobase = 66304\<rparr>\<rparr>\<rparr>))) =
     [Disable_device, Ioport_unmap 66304, Disable_device, Ioport_unmap 66304] \<and>
   hw_unavailable (priv (spectrum_cs_release sim_services
     (sys0 sim0\<lparr>priv := priv0\<lparr>hw := \<lparr>iobase = 66304\<rparr>\<rparr>\<rparr>))) = 1 \<and>
   hw_unavailable (priv (spectrum_cs_release sim_services (spectrum_cs_release sim_services
     (sys0 sim0\<lparr>priv := priv0\<lparr>hw := \<lparr>iobase = 66304\<rparr>\<rparr>\<rparr>)))) = 2 \<and>
   spectrum_cs_release sim_services (spectrum_cs_release sim_services
     (sys0 sim0\<lparr>priv := priv0\<lparr>hw := \<lparr>iobase = 66304\<rparr>\<rparr>\<rparr>)) \<noteq>
   spectrum_cs_release sim_services
     (sys0 sim0\<lparr>priv := priv0\<lparr>hw := \<lparr>iobase = 66304\<rparr>\<rparr>\<rparr>)"
  by (simp add: spectrum_cs_release_def Let_def upd_priv_def disable_device_def log_def
      sim_defs)

text \<open>A release with the counter at \<^verbatim>\<open>INT_MAX\<close> leaves it at \<^verbatim>\<open>INT_MIN\<close>.\<close>

theorem release_wraps:
  "sint (hw_unavailable (priv (spectrum_cs_release sim_services
     (sys0 sim0\<lparr>priv := priv0\<lparr>hw_unavailable := 2147483647\<rparr>\<rparr>)))) = - 2147483648"
  by (simp add: spectrum_cs_release_def Let_def upd_priv_def disable_device_def log_def
      sim_defs)

text \<open>C7, on a socket whose table has one acceptable entry and whose card fails the
  first register access: the reset fails with \<^verbatim>\<open>-ENODEV\<close>, and so does
  \<^verbatim>\<open>spectrum_cs_stop_firmware\<close>, but \<^verbatim>\<open>spectrum_cs_hard_reset\<close> returns 0 and
  \<^verbatim>\<open>spectrum_cs_config\<close> goes on to initialise and register the interface and
  returns 0; the release is not run.\<close>

theorem config_ignores_failed_reset:
  "fst (spectrum_reset hdr0 sim_services reg_stack
     (sys0 (sim0\<lparr>table := [(cf_novpp, no_dflt)], fail_at := 1\<rparr>)) 0) = - 19 \<and>
   fst (spectrum_cs_stop_firmware hdr0 sim_services reg_stack
     (sys0 (sim0\<lparr>table := [(cf_novpp, no_dflt)], fail_at := 1\<rparr>)) 0) = - 19 \<and>
   fst (spectrum_cs_hard_reset hdr0 sim_services reg_stack
     (sys0 (sim0\<lparr>table := [(cf_novpp, no_dflt)], fail_at := 1\<rparr>))) = 0 \<and>
   fst (spectrum_cs_config hdr0 sim_services 0 reg_stack
     (sys0 (sim0\<lparr>table := [(cf_novpp, no_dflt)], fail_at := 1\<rparr>))) = 0 \<and>
   calls (snd (spectrum_cs_config hdr0 sim_services 0 reg_stack
     (sys0 (sim0\<lparr>table := [(cf_novpp, no_dflt)], fail_at := 1\<rparr>)))) =
     [Request_io \<lparr>BasePort1 = 0x320, NumPorts1 = 16, Attributes1 = 8, BasePort2 = 0,
        NumPorts2 = 0, Attributes2 = 0, IOAddrLines = 0\<rparr> 0,
      Request_irq 0, Ioport_map 0x320 16 66336, Hermes_struct_init 66336 0,
      Request_configuration \<lparr>Attributes = 1, Vpp = 0, IntType = 2\<rparr> 0,
      Access_configuration_register
        \<lparr>Function = 0, Action = 1, Offset = 0, Value = 0x1234\<rparr> 5
        \<lparr>Function = 0, Action = 1, Offset = 0, Value = 0x1234\<rparr>,
      Cs_error 0 5, Orinoco_init 0, Orinoco_if_add 0x320 3 0] \<and>
   dev_node (link (snd (spectrum_cs_config hdr0 sim_services 0 reg_stack
     (sys0 (sim0\<lparr>table := [(cf_novpp, no_dflt)], fail_at := 1\<rparr>))))) \<and>
   hw_unavailable (priv (snd (spectrum_cs_config hdr0 sim_services 0 reg_stack
     (sys0 (sim0\<lparr>table := [(cf_novpp, no_dflt)], fail_at := 1\<rparr>))))) = 0"
  by (simp add: config_defs check_run_defs run_defs spectrum_cs_stop_firmware_def sim_defs)

text \<open>A failure of the scan, on a socket with an empty table, runs the release.\<close>

theorem config_failure_releases:
  "fst (spectrum_cs_config hdr0 sim_services 0 reg_stack (sys0 sim0)) = - 19 \<and>
   calls (snd (spectrum_cs_config hdr0 sim_services 0 reg_stack (sys0 sim0))) =
     [Printk ''spectrum_cs: GetNextTuple(): No matching CIS configuration.  Maybe you need the ignore_cis_vcc=1 parameter.'',
      Cs_error 31 31, Disable_device]"
  by (simp add: config_defs check_run_defs run_defs sim_defs)

end
